theory Spec2Isabelle
  imports Complex_Main "HOL-Library.Product_Lexorder"
begin

section \<open>Python values and the distance function\<close>

text \<open>
  The function \<open>distance\<close> nested in \<open>add_distance_dataframe\<close> receives the four
  coordinate columns of a row. They are float columns, so each argument is a Python
  float or \<open>None\<close>: \<open>real option\<close>. Floating-point numbers are idealised as real
  numbers throughout; rounding is not modelled.

  The function returns the integer literal \<open>-1\<close> on a missing argument and a float
  otherwise, so its result is a Python value that keeps the two apart.
  \<open>math.sqrt\<close> raises \<open>ValueError\<close> on a negative argument; that is the only
  place where the body can raise. Over the real numbers the term \<open>a\<close> lies in
  \<open>[0, 1]\<close> and the branch is never taken. In double precision rounding can lift
  \<open>a\<close> above 1 for two points that are nearly antipodal (at the coordinates
  \<open>(8, 0)\<close> and \<open>(-8, 180)\<close> it is \<open>1.0000000000000002\<close>) and the source raises
  there: what is proved below about the function returning is a fact of real
  arithmetic, not of the floats.
\<close>

datatype pyval = PyNone | PyInt int | PyFloat real

datatype py_error = ValueError

text \<open>The number a Python value stands for (\<open>-1 == -1.0\<close> in Python).\<close>

fun py_num :: "pyval \<Rightarrow> real option" where
  "py_num PyNone = None"
| "py_num (PyInt i) = Some (real_of_int i)"
| "py_num (PyFloat x) = Some x"

definition radians :: "real \<Rightarrow> real" where
  "radians d = d * pi / 180"

definition py_sqrt :: "real \<Rightarrow> py_error + real" where
  "py_sqrt x = (if x < 0 then Inl ValueError else Inr (sqrt x))"

text \<open>\<open>math.atan2(y, x)\<close>: the angle of the point \<open>(x, y)\<close>, in \<open>(-pi, pi]\<close>.\<close>

definition atan2 :: "real \<Rightarrow> real \<Rightarrow> real" where
  "atan2 y x =
     (if 0 < x then arctan (y / x)
      else if x < 0 then (if 0 \<le> y then arctan (y / x) + pi else arctan (y / x) - pi)
      else if 0 < y then pi / 2
      else if y < 0 then - (pi / 2)
      else 0)"

text \<open>The term \<open>a\<close> of the source, from the four angles in radians.\<close>

definition hav_a :: "real \<Rightarrow> real \<Rightarrow> real \<Rightarrow> real \<Rightarrow> real" where
  "hav_a lat1 lon1 lat2 lon2 =
     (let dlon = lon2 - lon1;
          dlat = lat2 - lat1
      in (sin (dlat / 2))\<^sup>2 + cos lat1 * cos lat2 * (sin (dlon / 2))\<^sup>2)"

definition distance ::
  "real option \<Rightarrow> real option \<Rightarrow> real option \<Rightarrow> real option \<Rightarrow> py_error + pyval" where
  "distance lat1 lon1 lat2 lon2 =
     (if lat1 = None \<or> lon1 = None \<or> lat2 = None \<or> lon2 = None then Inr (PyInt (- 1))
      else
        let R = 6373;
            lat1 = radians (the lat1);
            lon1 = radians (the lon1);
            lat2 = radians (the lat2);
            lon2 = radians (the lon2);
            a = hav_a lat1 lon1 lat2 lon2
        in case py_sqrt a of
             Inl e \<Rightarrow> Inl e
           | Inr sa \<Rightarrow>
               (case py_sqrt (1 - a) of
                  Inl e \<Rightarrow> Inl e
                | Inr sb \<Rightarrow> Inr (PyFloat (R * (2 * atan2 sa sb)))))"

text \<open>
  The haversine formula as the specification names it: the great-circle distance
  \<open>2 R arcsin (sqrt h)\<close> on a sphere of radius \<open>R\<close>, where \<open>h\<close> is the haversine of
  the central angle of two points given in degrees.
\<close>

definition haversine_km :: "real \<Rightarrow> real \<Rightarrow> real \<Rightarrow> real \<Rightarrow> real \<Rightarrow> real" where
  "haversine_km R lat1 lon1 lat2 lon2 =
     2 * R * arcsin (sqrt ((sin ((radians lat2 - radians lat1) / 2))\<^sup>2
        + cos (radians lat1) * cos (radians lat2) * (sin ((radians lon2 - radians lon1) / 2))\<^sup>2))"

section \<open>Spark values, rows and data frames\<close>

text \<open>
  A cell of a data frame is null, a string or a number (integers and floats are both
  numbers here). A row lists its cells with their column names, in column order; a name
  may occur twice, as Spark allows after a join. A data frame carries its column names
  and its rows. The order of the rows of a Spark data frame is an artefact of the
  execution; the model fixes one order and no claim below depends on it.
\<close>

datatype val = Null | Str string | Num real

type_synonym row = "(string \<times> val) list"

record dataframe =
  columns :: "string list"
  rows :: "row list"

text \<open>The cell of a row under a column name (the first one of that name).\<close>

definition getcol :: "string \<Rightarrow> row \<Rightarrow> val" where
  "getcol c r = (case map_of r c of Some v \<Rightarrow> v | None \<Rightarrow> Null)"

subsection \<open>Column expressions: three-valued logic\<close>

text \<open>
  A SQL condition is true, false or null (\<open>None\<close>); a comparison with null is null, and
  a filter keeps the rows whose condition is true.
\<close>

definition sql_eq :: "val \<Rightarrow> val \<Rightarrow> bool option" where
  "sql_eq a b = (if a = Null \<or> b = Null then None else Some (a = b))"

definition sql_gt :: "val \<Rightarrow> val \<Rightarrow> bool option" where
  "sql_gt a b = (case (a, b) of (Num x, Num y) \<Rightarrow> Some (y < x) | _ \<Rightarrow> None)"

definition sql_le :: "val \<Rightarrow> val \<Rightarrow> bool option" where
  "sql_le a b = (case (a, b) of (Num x, Num y) \<Rightarrow> Some (x \<le> y) | _ \<Rightarrow> None)"

definition sql_not :: "bool option \<Rightarrow> bool option" where
  "sql_not a = map_option Not a"

definition sql_and :: "bool option \<Rightarrow> bool option \<Rightarrow> bool option" where
  "sql_and a b =
     (if a = Some False \<or> b = Some False then Some False
      else if a = None \<or> b = None then None
      else Some True)"

definition sql_or :: "bool option \<Rightarrow> bool option \<Rightarrow> bool option" where
  "sql_or a b =
     (if a = Some True \<or> b = Some True then Some True
      else if a = None \<or> b = None then None
      else Some False)"

definition isNotNull :: "val \<Rightarrow> bool option" where
  "isNotNull v = Some (v \<noteq> Null)"

definition isin :: "val \<Rightarrow> val list \<Rightarrow> bool option" where
  "isin v vs =
     (if v = Null then None
      else if v \<in> set vs then Some True
      else if Null \<in> set vs then None
      else Some False)"

text \<open>\<open>abs(x - y)\<close> on two numeric cells; null when either is null.\<close>

definition sql_abs_diff :: "val \<Rightarrow> val \<Rightarrow> val" where
  "sql_abs_diff a b = (case (a, b) of (Num x, Num y) \<Rightarrow> Num \<bar>x - y\<bar> | _ \<Rightarrow> Null)"

text \<open>
  \<open>cast("float")\<close> of a cell: a string is parsed by Spark (the parser is a parameter),
  and a string that is not a number becomes null.
\<close>

definition cast_float :: "(string \<Rightarrow> real option) \<Rightarrow> val \<Rightarrow> val" where
  "cast_float parse v =
     (case v of
        Null \<Rightarrow> Null
      | Num x \<Rightarrow> Num x
      | Str s \<Rightarrow> (case parse s of None \<Rightarrow> Null | Some x \<Rightarrow> Num x))"

subsection \<open>Data frame operations\<close>

definition filter_df :: "(row \<Rightarrow> bool option) \<Rightarrow> dataframe \<Rightarrow> dataframe" where
  "filter_df p df = \<lparr>columns = columns df, rows = filter (\<lambda>r. p r = Some True) (rows df)\<rparr>"

text \<open>\<open>drop\<close> by name removes every column of that name; an unknown name is ignored.\<close>

definition drop_cols :: "string list \<Rightarrow> dataframe \<Rightarrow> dataframe" where
  "drop_cols cs df =
     \<lparr>columns = filter (\<lambda>c. c \<notin> set cs) (columns df),
      rows = map (filter (\<lambda>kv. fst kv \<notin> set cs)) (rows df)\<rparr>"

definition rename :: "string \<Rightarrow> string \<Rightarrow> string \<Rightarrow> string" where
  "rename old new c = (if c = old then new else c)"

definition withColumnRenamed :: "string \<Rightarrow> string \<Rightarrow> dataframe \<Rightarrow> dataframe" where
  "withColumnRenamed old new df =
     \<lparr>columns = map (rename old new) (columns df),
      rows = map (map (\<lambda>kv. (rename old new (fst kv), snd kv))) (rows df)\<rparr>"

text \<open>\<open>withColumn\<close> replaces the column of that name when there is one, and appends otherwise.\<close>

definition put_col :: "string \<Rightarrow> val \<Rightarrow> row \<Rightarrow> row" where
  "put_col c v r =
     (if c \<in> set (map fst r) then map (\<lambda>kv. if fst kv = c then (c, v) else kv) r
      else r @ [(c, v)])"

definition put_name :: "string \<Rightarrow> string list \<Rightarrow> string list" where
  "put_name c cs = (if c \<in> set cs then cs else cs @ [c])"

definition withColumn :: "string \<Rightarrow> (row \<Rightarrow> val) \<Rightarrow> dataframe \<Rightarrow> dataframe" where
  "withColumn c f df =
     \<lparr>columns = put_name c (columns df), rows = map (\<lambda>r. put_col c (f r) r) (rows df)\<rparr>"

text \<open>
  A column computed by a Python function: the job fails with the first error the
  function raises.
\<close>

fun collect :: "('e + 'a) list \<Rightarrow> 'e + 'a list" where
  "collect [] = Inr []"
| "collect (x # xs) =
     (case x of
        Inl e \<Rightarrow> Inl e
      | Inr v \<Rightarrow> (case collect xs of Inl e \<Rightarrow> Inl e | Inr vs \<Rightarrow> Inr (v # vs)))"

definition withColumn_udf ::
  "string \<Rightarrow> (row \<Rightarrow> py_error + val) \<Rightarrow> dataframe \<Rightarrow> py_error + dataframe" where
  "withColumn_udf c f df =
     (case collect (map (\<lambda>r. case f r of Inl e \<Rightarrow> Inl e | Inr v \<Rightarrow> Inr (put_col c v r)) (rows df)) of
        Inl e \<Rightarrow> Inl e
      | Inr rs \<Rightarrow> Inr \<lparr>columns = put_name c (columns df), rows = rs\<rparr>)"

definition select :: "string list \<Rightarrow> dataframe \<Rightarrow> dataframe" where
  "select cs df = \<lparr>columns = cs, rows = map (\<lambda>r. map (\<lambda>c. (c, getcol c r)) cs) (rows df)\<rparr>"

definition limit :: "nat \<Rightarrow> dataframe \<Rightarrow> dataframe" where
  "limit n df = \<lparr>columns = columns df, rows = take n (rows df)\<rparr>"

definition broadcast :: "dataframe \<Rightarrow> dataframe" where
  "broadcast df = df"

subsection \<open>Joins\<close>

datatype how = Inner | LeftOuter

definition null_row :: "string list \<Rightarrow> row" where
  "null_row cs = map (\<lambda>c. (c, Null)) cs"

text \<open>
  A join on a condition: each left row is paired with every right row for which the
  condition is true; a left join keeps a left row without a partner, padded with nulls.
  The result has the columns of both sides.
\<close>

definition join_rows :: "(row \<Rightarrow> row \<Rightarrow> bool option) \<Rightarrow> how \<Rightarrow> dataframe \<Rightarrow> row \<Rightarrow> row list" where
  "join_rows on h right l =
     (let ms = filter (\<lambda>r. on l r = Some True) (rows right)
      in if ms = [] then (case h of Inner \<Rightarrow> [] | LeftOuter \<Rightarrow> [l @ null_row (columns right)])
         else map (\<lambda>r. l @ r) ms)"

definition join :: "dataframe \<Rightarrow> dataframe \<Rightarrow> (row \<Rightarrow> row \<Rightarrow> bool option) \<Rightarrow> how \<Rightarrow> dataframe" where
  "join left right on h =
     \<lparr>columns = columns left @ columns right,
      rows = concat (map (join_rows on h right) (rows left))\<rparr>"

text \<open>
  A join on a list with one column name: the rows are paired on equality of that column,
  and the result has the column once (the left one), then the other columns of the
  left side, then the other columns of the right side.
\<close>

definition without :: "string \<Rightarrow> row \<Rightarrow> row" where
  "without k r = filter (\<lambda>kv. fst kv \<noteq> k) r"

definition join_using_rows :: "string \<Rightarrow> how \<Rightarrow> dataframe \<Rightarrow> row \<Rightarrow> row list" where
  "join_using_rows k h right l =
     (let ms = filter (\<lambda>r. sql_eq (getcol k l) (getcol k r) = Some True) (rows right);
          lrow = (k, getcol k l) # without k l
      in if ms = [] then
           (case h of Inner \<Rightarrow> [] | LeftOuter \<Rightarrow> [lrow @ null_row (filter (\<lambda>c. c \<noteq> k) (columns right))])
         else map (\<lambda>r. lrow @ without k r) ms)"

definition join_using :: "dataframe \<Rightarrow> dataframe \<Rightarrow> string \<Rightarrow> how \<Rightarrow> dataframe" where
  "join_using left right k h =
     \<lparr>columns = k # filter (\<lambda>c. c \<noteq> k) (columns left) @ filter (\<lambda>c. c \<noteq> k) (columns right),
      rows = concat (map (join_using_rows k h right) (rows left))\<rparr>"

subsection \<open>Aggregation, ordering and ranking\<close>

datatype agg = Count string | Avg string | MaxOf string

text \<open>The non-null numbers of a column; aggregates ignore nulls.\<close>

definition nums :: "string \<Rightarrow> row list \<Rightarrow> real list" where
  "nums c rs = List.map_filter (\<lambda>r. case getcol c r of Num x \<Rightarrow> Some x | _ \<Rightarrow> None) rs"

fun eval_agg :: "agg \<Rightarrow> row list \<Rightarrow> val" where
  "eval_agg (Count c) rs = Num (real (length (filter (\<lambda>r. getcol c r \<noteq> Null) rs)))"
| "eval_agg (Avg c) rs =
     (case nums c rs of [] \<Rightarrow> Null | x # xs \<Rightarrow> Num (sum_list (x # xs) / real (length (x # xs))))"
| "eval_agg (MaxOf c) rs =
     (case nums c rs of [] \<Rightarrow> Null | x # xs \<Rightarrow> Num (fold max xs x))"

definition key_of :: "string list \<Rightarrow> row \<Rightarrow> val list" where
  "key_of ks r = map (\<lambda>k. getcol k r) ks"

text \<open>
  \<open>GROUP BY\<close>: one row per distinct key (null is a key of its own), holding the key
  columns and then the aggregates of the rows with that key.
\<close>

definition group_by_agg :: "string list \<Rightarrow> (string \<times> agg) list \<Rightarrow> dataframe \<Rightarrow> dataframe" where
  "group_by_agg ks aggs df =
     \<lparr>columns = ks @ map fst aggs,
      rows = map (\<lambda>k. zip ks k @
                   map (\<lambda>na. (fst na, eval_agg (snd na) (filter (\<lambda>r. key_of ks r = k) (rows df)))) aggs)
               (remdups (map (key_of ks) (rows df)))\<rparr>"

text \<open>
  Descending order on a numeric column, nulls last. The order among equal values is
  not specified by Spark; the model keeps the order they had.
\<close>

fun desc_key :: "val \<Rightarrow> nat \<times> real" where
  "desc_key (Num x) = (0, - x)"
| "desc_key (Str s) = (0, 0)"
| "desc_key Null = (1, 0)"

definition order_by_desc :: "string \<Rightarrow> dataframe \<Rightarrow> dataframe" where
  "order_by_desc c df =
     \<lparr>columns = columns df, rows = sort_key (\<lambda>r. desc_key (getcol c r)) (rows df)\<rparr>"

text \<open>
  \<open>ROW_NUMBER() OVER (PARTITION BY part ORDER BY ord DESC) AS row_number\<close>: within each
  partition the rows are numbered from 1 in descending order of \<open>ord\<close>.
\<close>

definition number_rows :: "row list \<Rightarrow> row list" where
  "number_rows rs = map (\<lambda>ir. snd ir @ [(''row_number'', Num (real (Suc (fst ir))))]) (enumerate 0 rs)"

definition row_number_over :: "string \<Rightarrow> string \<Rightarrow> dataframe \<Rightarrow> dataframe" where
  "row_number_over part ord df =
     \<lparr>columns = columns df @ [''row_number''],
      rows = concat (map (\<lambda>k. number_rows (sort_key (\<lambda>r. desc_key (getcol ord r))
                                 (filter (\<lambda>r. getcol part r = k) (rows df))))
                       (remdups (map (getcol part) (rows df))))\<rparr>"

section \<open>The pipeline\<close>

subsection \<open>Cleaning\<close>

definition clean_dataframe :: "dataframe \<Rightarrow> dataframe" where
  "clean_dataframe df =
     (let df = filter_df (\<lambda>r. sql_not (isin (getcol ''destination_airport_iata'' r) [Str ''NaN'', Str ''N/A''])) df;
          df = filter_df (\<lambda>r. sql_not (isin (getcol ''origin_airport_iata'' r) [Str ''NaN'', Str ''N/A''])) df
      in df)"

subsection \<open>Enrichment\<close>

text \<open>
  What the run reads from outside: the three reference files as Spark's CSV reader
  returns them (every cell a string or null; \<open>planes.dat\<close> and \<open>airlines.dat\<close> have
  no header, so their columns are \<open>_c0\<close>, \<open>_c1\<close>, ...), and Spark's parser of a float.
\<close>

record reference_data =
  parse_float :: "string \<Rightarrow> real option"
  airports_csv :: dataframe
  planes_dat :: dataframe
  airlines_dat :: dataframe

text \<open>
  \<open>udf(distance, FloatType())\<close>: a float cell reaches Python as a float and a null
  cell as \<open>None\<close>. On the way back Spark takes a Python float for a float column and
  does not coerce anything else: a result that is not a float (the integer \<open>-1\<close>
  included) becomes null.
\<close>

definition to_python :: "val \<Rightarrow> real option" where
  "to_python v = (case v of Num x \<Rightarrow> Some x | _ \<Rightarrow> None)"

definition from_python_FloatType :: "pyval \<Rightarrow> val" where
  "from_python_FloatType v = (case v of PyFloat x \<Rightarrow> Num x | _ \<Rightarrow> Null)"

definition distance_udf :: "val \<Rightarrow> val \<Rightarrow> val \<Rightarrow> val \<Rightarrow> py_error + val" where
  "distance_udf lat1 lon1 lat2 lon2 =
     (case distance (to_python lat1) (to_python lon1) (to_python lat2) (to_python lon2) of
        Inl e \<Rightarrow> Inl e
      | Inr v \<Rightarrow> Inr (from_python_FloatType v))"

definition df_airport :: "reference_data \<Rightarrow> dataframe" where
  "df_airport ref =
     (let df_airport = airports_csv ref;
          df_airport = drop_cols [''id'', ''ident'', ''type'', ''name'', ''elevation_ft'', ''iso_region'',
                         ''municipality'', ''scheduled_service'', ''gps_code'', ''local_code'', ''home_link'',
                         ''wikipedia_link'', ''keywords'', ''iso_country''] df_airport;
          df_airport = filter_df (\<lambda>r. sql_and (isNotNull (getcol ''iata_code'' r))
                                                 (isNotNull (getcol ''continent'' r))) df_airport;
          df_airport = withColumn ''latitude_deg''
                         (\<lambda>r. cast_float (parse_float ref) (getcol ''latitude_deg'' r)) df_airport;
          df_airport = withColumn ''longitude_deg''
                         (\<lambda>r. cast_float (parse_float ref) (getcol ''longitude_deg'' r)) df_airport
      in df_airport)"

definition df_airport_destination :: "reference_data \<Rightarrow> dataframe" where
  "df_airport_destination ref =
     withColumnRenamed ''continent'' ''destination_airport_continent''
       (withColumnRenamed ''longitude_deg'' ''destination_longitude_deg''
         (withColumnRenamed ''latitude_deg'' ''destination_latitude_deg''
           (withColumnRenamed ''iata_code'' ''destination_airport_iata'' (df_airport ref))))"

definition df_airport_origin :: "reference_data \<Rightarrow> dataframe" where
  "df_airport_origin ref =
     withColumnRenamed ''continent'' ''origin_airport_continent''
       (withColumnRenamed ''longitude_deg'' ''origin_longitude_deg''
         (withColumnRenamed ''latitude_deg'' ''origin_latitude_deg''
           (withColumnRenamed ''iata_code'' ''origin_airport_iata'' (df_airport ref))))"

text \<open>The two airport join stages of \<open>add_distance_dataframe\<close>, in the source's order.\<close>

definition join_destination :: "reference_data \<Rightarrow> dataframe \<Rightarrow> dataframe" where
  "join_destination ref df =
     join_using df (broadcast (df_airport_destination ref)) ''destination_airport_iata'' LeftOuter"

definition join_origin :: "reference_data \<Rightarrow> dataframe \<Rightarrow> dataframe" where
  "join_origin ref df =
     join_using df (broadcast (df_airport_origin ref)) ''origin_airport_iata'' LeftOuter"

definition add_distance_dataframe :: "reference_data \<Rightarrow> dataframe \<Rightarrow> py_error + dataframe" where
  "add_distance_dataframe ref df =
     (let df = join_destination ref df;
          df = join_origin ref df
      in withColumn_udf ''distance''
           (\<lambda>r. distance_udf (getcol ''origin_latitude_deg'' r) (getcol ''origin_longitude_deg'' r)
                   (getcol ''destination_latitude_deg'' r) (getcol ''destination_longitude_deg'' r)) df)"

definition df_aircrafts :: "reference_data \<Rightarrow> dataframe" where
  "df_aircrafts ref =
     (let df_aircrafts = planes_dat ref;
          df_aircrafts = drop_cols [''_c1''] df_aircrafts;
          df_aircrafts = withColumnRenamed ''_c2'' ''aircraft_code''
                           (withColumnRenamed ''_c0'' ''aircraft_name'' df_aircrafts);
          df_aircrafts = filter_df (\<lambda>r. isNotNull (getcol ''aircraft_code'' r)) df_aircrafts
      in df_aircrafts)"

definition add_aircrafts_dataframe :: "reference_data \<Rightarrow> dataframe \<Rightarrow> dataframe" where
  "add_aircrafts_dataframe ref df =
     join df (broadcast (df_aircrafts ref))
       (\<lambda>l r. sql_eq (getcol ''aircraft_code'' l) (getcol ''aircraft_code'' r)) LeftOuter"

definition df_airlines :: "reference_data \<Rightarrow> dataframe" where
  "df_airlines ref =
     (let df_airlines = airlines_dat ref;
          df_airlines = select [''_c1'', ''_c3'', ''_c4''] df_airlines;
          df_airlines = withColumnRenamed ''_c4'' ''airline_icao''
                          (withColumnRenamed ''_c3'' ''airline_iata''
                            (withColumnRenamed ''_c1'' ''airline_name'' df_airlines));
          df_airlines = filter_df (\<lambda>r. sql_or (isNotNull (getcol ''airline_iata'' r))
                                                 (isNotNull (getcol ''airline_icao'' r))) df_airlines
      in df_airlines)"

definition add_airlines_dataframe :: "reference_data \<Rightarrow> dataframe \<Rightarrow> dataframe" where
  "add_airlines_dataframe ref df =
     (let df = join df (broadcast (df_airlines ref))
                 (\<lambda>l r. sql_or (sql_eq (getcol ''airline_icao'' l) (getcol ''airline_icao'' r))
                                (sql_eq (getcol ''airline_iata'' l) (getcol ''airline_iata'' r))) LeftOuter;
          df = drop_cols [''airline_iata''] (drop_cols [''airline_icao''] df)
      in df)"

definition get_active_flights :: "dataframe \<Rightarrow> dataframe" where
  "get_active_flights df = filter_df (\<lambda>r. sql_eq (getcol ''on_ground'' r) (Num 0)) df"

text \<open>
  The module's top level from the raw snapshot on: clean, then the three enrichment
  stages. The result is the frame \<open>df\<close> of the queries; \<open>df_active\<close> is its active
  subset.
\<close>

definition enriched :: "reference_data \<Rightarrow> dataframe \<Rightarrow> py_error + dataframe" where
  "enriched ref flights =
     (let df = clean_dataframe flights
      in case add_distance_dataframe ref df of
           Inl e \<Rightarrow> Inl e
         | Inr df \<Rightarrow>
             (let df = add_aircrafts_dataframe ref df;
                  df = add_airlines_dataframe ref df
              in Inr df))"

definition df_continent :: dataframe where
  "df_continent =
     broadcast \<lparr>columns = [''continent_name'', ''continent''],
       rows = map (\<lambda>nc. [(''continent_name'', Str (fst nc)), (''continent'', Str (snd nc))])
                [(''North America'', ''NA''),
                 (''South America'', ''SA''),
                 (''Europe'', ''EU''),
                 (''Asia'', ''AS''),
                 (''Africa'', ''AF''),
                 (''Australia'', ''OC'')]\<rparr>"

section \<open>The queries\<close>

definition df_q1 :: "dataframe \<Rightarrow> dataframe" where
  "df_q1 df_active =
     limit 1 (order_by_desc ''nb_flights''
       (group_by_agg [''airline_name''] [(''nb_flights'', Count ''airline_name'')] df_active))"

text \<open>Q2, step by step as the source builds it.\<close>

definition q2_regional :: "dataframe \<Rightarrow> dataframe" where
  "q2_regional df_active =
     (let df_q2 = group_by_agg [''origin_airport_continent'', ''destination_airport_continent'', ''airline_name'']
                    [(''count(airline_name)'', Count ''airline_name'')] df_active;
          df_q2 = order_by_desc ''count(airline_name)'' df_q2;
          df_q2 = filter_df (\<lambda>r. sql_eq (getcol ''origin_airport_continent'' r)
                                          (getcol ''destination_airport_continent'' r)) df_q2;
          df_q2 = withColumnRenamed ''count(airline_name)'' ''number_of_flights'' df_q2;
          df_q2 = drop_cols [''origin_airport_continent''] df_q2;
          df_q2 = withColumnRenamed ''destination_airport_continent'' ''continent'' df_q2
      in df_q2)"

definition q2_ranked :: "dataframe \<Rightarrow> dataframe" where
  "q2_ranked df_q2 =
     select [''continent'', ''airline_name'', ''number_of_flights'']
       (filter_df (\<lambda>r. sql_eq (getcol ''row_number'' r) (Num 1))
         (row_number_over ''continent'' ''number_of_flights''
           (select [''continent'', ''airline_name'', ''number_of_flights''] df_q2)))"

definition df_q2 :: "dataframe \<Rightarrow> dataframe" where
  "df_q2 df_active =
     (let df_q2 = q2_ranked (q2_regional df_active);
          df_q2 = join df_q2 df_continent
                    (\<lambda>l r. sql_eq (getcol ''continent'' l) (getcol ''continent'' r)) LeftOuter;
          df_q2 = drop_cols [''continent''] df_q2
      in df_q2)"

definition df_q3 :: "dataframe \<Rightarrow> dataframe" where
  "df_q3 df_active =
     filter_df (\<lambda>r. sql_eq (getcol ''distance'' r) (eval_agg (MaxOf ''distance'') (rows df_active)))
       df_active"

definition q4_means :: "dataframe \<Rightarrow> dataframe" where
  "q4_means df =
     group_by_agg [''origin_airport_continent''] [(''distance_mean'', Avg ''distance'')]
       (filter_df (\<lambda>r. sql_gt (getcol ''distance'' r) (Num 0)) df)"

definition df_q4 :: "dataframe \<Rightarrow> dataframe" where
  "df_q4 df =
     (let df_q4 = q4_means df;
          df_q4 = join df_q4 df_continent
                    (\<lambda>l r. sql_eq (getcol ''origin_airport_continent'' l) (getcol ''continent'' r)) LeftOuter;
          df_q4 = drop_cols [''origin_airport_continent'', ''continent''] df_q4
      in df_q4)"

definition df_q5 :: "dataframe \<Rightarrow> dataframe" where
  "df_q5 df_active =
     (let df_q5 = limit 1 (order_by_desc ''count(aircraft_name)''
                    (group_by_agg [''aircraft_name''] [(''count(aircraft_name)'', Count ''aircraft_name'')]
                       df_active));
          df_q5 = withColumnRenamed ''aircraft_name'' ''aircraft''
                    (withColumnRenamed ''count(aircraft_name)'' ''number_of_flights'' df_q5)
      in df_q5)"

definition q6_counts :: "dataframe \<Rightarrow> dataframe" where
  "q6_counts df =
     (let df_q6 = group_by_agg [''airline_name'', ''aircraft_name'']
                    [(''count(airline_name)'', Count ''airline_name'')] df;
          df_q6 = order_by_desc ''count(airline_name)'' df_q6;
          df_q6 = filter_df (\<lambda>r. isNotNull (getcol ''airline_name'' r)) df_q6;
          df_q6 = filter_df (\<lambda>r. isNotNull (getcol ''aircraft_name'' r)) df_q6;
          df_q6 = withColumnRenamed ''count(airline_name)'' ''number_of_flights'' df_q6
      in df_q6)"

definition df_q6 :: "dataframe \<Rightarrow> dataframe" where
  "df_q6 df =
     select [''airline_name'', ''aircraft_name'', ''number_of_flights'']
       (filter_df (\<lambda>r. sql_le (getcol ''row_number'' r) (Num 3))
         (row_number_over ''airline_name'' ''number_of_flights''
           (select [''airline_name'', ''aircraft_name'', ''number_of_flights''] (q6_counts df))))"

definition qb_differences :: "dataframe \<Rightarrow> dataframe" where
  "qb_differences df =
     (let df_qb_1 = group_by_agg [''origin_airport_iata''] [(''nb_departures'', Count ''id'')] df;
          df_qb_2 = group_by_agg [''destination_airport_iata''] [(''nb_arrivals'', Count ''id'')] df;
          df_qb_1 = filter_df (\<lambda>r. isNotNull (getcol ''origin_airport_iata'' r)) df_qb_1;
          df_qb_2 = filter_df (\<lambda>r. isNotNull (getcol ''destination_airport_iata'' r)) df_qb_2;
          df_qb = join df_qb_1 df_qb_2
                    (\<lambda>l r. sql_eq (getcol ''origin_airport_iata'' l) (getcol ''destination_airport_iata'' r)) Inner;
          df_qb = withColumn ''difference''
                    (\<lambda>r. sql_abs_diff (getcol ''nb_departures'' r) (getcol ''nb_arrivals'' r)) df_qb;
          df_qb = withColumnRenamed ''destination_airport_iata'' ''airport_iata''
                    (drop_cols [''origin_airport_iata'', ''nb_departures'', ''nb_arrivals''] df_qb)
      in df_qb)"

definition df_qb :: "dataframe \<Rightarrow> dataframe" where
  "df_qb df =
     (let df_qb = qb_differences df
      in filter_df (\<lambda>r. sql_eq (getcol ''difference'' r) (eval_agg (MaxOf ''difference'') (rows df_qb))) df_qb)"

section \<open>Notions of the specification\<close>

text \<open>
  A usable airport code: present, and not one of the two literal placeholders the
  cleaning step looks for.
\<close>

definition usable_code :: "val \<Rightarrow> bool" where
  "usable_code v = (v \<noteq> Null \<and> v \<noteq> Str ''NaN'' \<and> v \<noteq> Str ''N/A'')"

text \<open>
  Q4 keeps a row when its distance is a number greater than 0. The distances of a group
  are those of the kept rows of that origin continent, and the mean is their sum over
  their number. \<open>continent_name_of\<close> is the display name the continent table gives a
  code (null for a code the table does not have).
\<close>

definition positive_distance :: "row \<Rightarrow> bool" where
  "positive_distance r = (case getcol ''distance'' r of Num x \<Rightarrow> 0 < x | _ \<Rightarrow> False)"

definition mean :: "real list \<Rightarrow> real" where
  "mean xs = sum_list xs / real (length xs)"

definition group_distances :: "val \<Rightarrow> dataframe \<Rightarrow> real list" where
  "group_distances k df =
     nums ''distance''
       (filter (\<lambda>r. getcol ''origin_airport_continent'' r = k) (filter positive_distance (rows df)))"

definition continent_name_of :: "val \<Rightarrow> val" where
  "continent_name_of k =
     (if k = Str ''NA'' then Str ''North America''
      else if k = Str ''SA'' then Str ''South America''
      else if k = Str ''EU'' then Str ''Europe''
      else if k = Str ''AS'' then Str ''Asia''
      else if k = Str ''AF'' then Str ''Africa''
      else if k = Str ''OC'' then Str ''Australia''
      else Null)"

text \<open>A fixture for Q4: a sentinel row, a zero-length flight and a null distance among two flights.\<close>

definition q4_fixture :: dataframe where
  "q4_fixture =
     \<lparr>columns = [''origin_airport_continent'', ''distance''],
      rows = [[(''origin_airport_continent'', Str ''EU''), (''distance'', Num 100)],
              [(''origin_airport_continent'', Str ''EU''), (''distance'', Num (- 1))],
              [(''origin_airport_continent'', Str ''EU''), (''distance'', Num 0)],
              [(''origin_airport_continent'', Str ''EU''), (''distance'', Null)],
              [(''origin_airport_continent'', Str ''AS''), (''distance'', Num (- 1))],
              [(''origin_airport_continent'', Str ''EU''), (''distance'', Num 300)]]\<rparr>"

text \<open>
  QB counts, for an airport code, the flights with an identifier that leave it and that
  reach it. Its candidates are the codes that occur in both roles, and the imbalance of a
  code is the absolute difference of its two counts.
\<close>

definition departures :: "val \<Rightarrow> dataframe \<Rightarrow> nat" where
  "departures k df =
     length (filter (\<lambda>r. getcol ''id'' r \<noteq> Null)
       (filter (\<lambda>r. getcol ''origin_airport_iata'' r = k) (rows df)))"

definition arrivals :: "val \<Rightarrow> dataframe \<Rightarrow> nat" where
  "arrivals k df =
     length (filter (\<lambda>r. getcol ''id'' r \<noteq> Null)
       (filter (\<lambda>r. getcol ''destination_airport_iata'' r = k) (rows df)))"

definition imbalance :: "dataframe \<Rightarrow> val \<Rightarrow> real" where
  "imbalance df k = \<bar>real (departures k df) - real (arrivals k df)\<bar>"

definition both_roles :: "dataframe \<Rightarrow> val list" where
  "both_roles df =
     filter (\<lambda>k. k \<in> set (map (getcol ''destination_airport_iata'') (rows df)))
       (filter (\<lambda>k. k \<noteq> Null) (remdups (map (getcol ''origin_airport_iata'') (rows df))))"

text \<open>
  Fixtures. A snapshot of one airborne flight from CDG to JFK and reference files in
  which only CDG is an airport; an active set of three flights with distances; and a
  snapshot in which airport X has 5 departures and 2 arrivals, Y has 2 and 2, and Z
  has 3 arrivals and no departure.
\<close>

definition one_flight :: dataframe where
  "one_flight =
     \<lparr>columns = [''id'', ''origin_airport_iata'', ''destination_airport_iata'', ''aircraft_code'',
                 ''airline_iata'', ''airline_icao'', ''on_ground''],
      rows = [[(''id'', Str ''f1''), (''origin_airport_iata'', Str ''CDG''),
               (''destination_airport_iata'', Str ''JFK''), (''aircraft_code'', Str ''A320''),
               (''airline_iata'', Str ''AF''), (''airline_icao'', Str ''AFR''), (''on_ground'', Num 0)]]\<rparr>"

definition small_reference :: reference_data where
  "small_reference =
     \<lparr>parse_float = (\<lambda>s. if s = ''49'' then Some 49 else if s = ''2'' then Some 2 else None),
      airports_csv =
        \<lparr>columns = [''id'', ''ident'', ''type'', ''name'', ''latitude_deg'', ''longitude_deg'',
                    ''elevation_ft'', ''continent'', ''iso_country'', ''iso_region'', ''municipality'',
                    ''scheduled_service'', ''gps_code'', ''iata_code'', ''local_code'', ''home_link'',
                    ''wikipedia_link'', ''keywords''],
         rows = [[(''id'', Str ''1''), (''ident'', Str ''LFPG''), (''type'', Str ''large_airport''),
                  (''name'', Str ''Roissy''), (''latitude_deg'', Str ''49''), (''longitude_deg'', Str ''2''),
                  (''elevation_ft'', Str ''392''), (''continent'', Str ''EU''), (''iso_country'', Str ''FR''),
                  (''iso_region'', Str ''FR-IDF''), (''municipality'', Str ''Paris''),
                  (''scheduled_service'', Str ''yes''), (''gps_code'', Str ''LFPG''),
                  (''iata_code'', Str ''CDG''), (''local_code'', Null), (''home_link'', Null),
                  (''wikipedia_link'', Null), (''keywords'', Null)]]\<rparr>,
      planes_dat =
        \<lparr>columns = [''_c0'', ''_c1'', ''_c2''],
         rows = [[(''_c0'', Str ''Airbus A320''), (''_c1'', Str ''320''), (''_c2'', Str ''A320'')]]\<rparr>,
      airlines_dat =
        \<lparr>columns = [''_c0'', ''_c1'', ''_c2'', ''_c3'', ''_c4'', ''_c5'', ''_c6'', ''_c7''],
         rows = [[(''_c0'', Str ''137''), (''_c1'', Str ''Air France''), (''_c2'', Null), (''_c3'', Str ''AF''),
                  (''_c4'', Str ''AFR''), (''_c5'', Str ''AIRFRANS''), (''_c6'', Str ''France''),
                  (''_c7'', Str ''Y'')]]\<rparr>\<rparr>"

definition three_active :: dataframe where
  "three_active =
     \<lparr>columns = [''id'', ''distance''],
      rows = [[(''id'', Str ''f1''), (''distance'', Num 5837)],
              [(''id'', Str ''f2''), (''distance'', Null)],
              [(''id'', Str ''f3''), (''distance'', Num 344)]]\<rparr>"

definition xyz_flights :: dataframe where
  "xyz_flights =
     \<lparr>columns = [''id'', ''origin_airport_iata'', ''destination_airport_iata''],
      rows = map (\<lambda>f. [(''id'', Str (fst f)), (''origin_airport_iata'', Str (fst (snd f))),
                        (''destination_airport_iata'', Str (snd (snd f)))])
               [(''f1'', ''X'', ''Y''), (''f2'', ''X'', ''Y''), (''f3'', ''Y'', ''X''), (''f4'', ''Y'', ''X''),
                (''f5'', ''X'', ''Z''), (''f6'', ''X'', ''Z''), (''f7'', ''X'', ''Z'')]\<rparr>"

text \<open>The fixture flight after the two airport joins, and after the whole enrichment.\<close>

definition one_flight_joined :: dataframe where
  "one_flight_joined =
     \<lparr>columns = [''origin_airport_iata'', ''destination_airport_iata'', ''id'', ''aircraft_code'',
                 ''airline_iata'', ''airline_icao'', ''on_ground'', ''destination_latitude_deg'',
                 ''destination_longitude_deg'', ''destination_airport_continent'', ''origin_latitude_deg'',
                 ''origin_longitude_deg'', ''origin_airport_continent''],
      rows = [[(''origin_airport_iata'', Str ''CDG''), (''destination_airport_iata'', Str ''JFK''),
               (''id'', Str ''f1''), (''aircraft_code'', Str ''A320''), (''airline_iata'', Str ''AF''),
               (''airline_icao'', Str ''AFR''), (''on_ground'', Num 0),
               (''destination_latitude_deg'', Null), (''destination_longitude_deg'', Null),
               (''destination_airport_continent'', Null), (''origin_latitude_deg'', Num 49),
               (''origin_longitude_deg'', Num 2), (''origin_airport_continent'', Str ''EU'')]]\<rparr>"

definition one_flight_enriched :: dataframe where
  "one_flight_enriched =
     \<lparr>columns = [''origin_airport_iata'', ''destination_airport_iata'', ''id'', ''aircraft_code'',
                 ''on_ground'', ''destination_latitude_deg'', ''destination_longitude_deg'',
                 ''destination_airport_continent'', ''origin_latitude_deg'', ''origin_longitude_deg'',
                 ''origin_airport_continent'', ''distance'', ''aircraft_name'', ''aircraft_code'',
                 ''airline_name''],
      rows = [[(''origin_airport_iata'', Str ''CDG''), (''destination_airport_iata'', Str ''JFK''),
               (''id'', Str ''f1''), (''aircraft_code'', Str ''A320''), (''on_ground'', Num 0),
               (''destination_latitude_deg'', Null), (''destination_longitude_deg'', Null),
               (''destination_airport_continent'', Null), (''origin_latitude_deg'', Num 49),
               (''origin_longitude_deg'', Num 2), (''origin_airport_continent'', Str ''EU''),
               (''distance'', Null), (''aircraft_name'', Str ''Airbus A320''),
               (''aircraft_code'', Str ''A320''), (''airline_name'', Str ''Air France'')]]\<rparr>"

text \<open>
  The first \<open>n\<close> rows of every partition, each partition in descending order of a
  numeric column: what a query keeps of \<open>ROW_NUMBER() OVER (PARTITION BY \<dots> ORDER BY
  \<dots> DESC)\<close> when it filters on \<open>row_number <= n\<close>.
\<close>

definition top_per_group :: "nat \<Rightarrow> string \<Rightarrow> string \<Rightarrow> row list \<Rightarrow> row list" where
  "top_per_group n part ord rs =
     concat (map (\<lambda>k. take n (sort_key (\<lambda>r. desc_key (getcol ord r)) (filter (\<lambda>r. getcol part r = k) rs)))
               (remdups (map (getcol part) rs)))"

text \<open>
  Q6: the number of flights of an airline with an aircraft model, and the row Q6 shows
  for the pair.
\<close>

definition flight_count :: "val \<Rightarrow> val \<Rightarrow> dataframe \<Rightarrow> nat" where
  "flight_count a m df =
     length (filter (\<lambda>r. getcol ''airline_name'' r = a \<and> getcol ''aircraft_name'' r = m) (rows df))"

definition q6_row :: "val \<Rightarrow> val \<Rightarrow> dataframe \<Rightarrow> row" where
  "q6_row a m df =
     [(''airline_name'', a), (''aircraft_name'', m), (''number_of_flights'', Num (real (flight_count a m df)))]"

text \<open>
  A fixture for Q6: Air France flies three A320, two B777, one A350 and one A380; one
  flight has no airline and one no aircraft.
\<close>

definition q6_fixture :: dataframe where
  "q6_fixture =
     \<lparr>columns = [''id'', ''airline_name'', ''aircraft_name''],
      rows = map (\<lambda>f. [(''id'', Str (fst f)), (''airline_name'', fst (snd f)), (''aircraft_name'', snd (snd f))])
               [(''f1'', Str ''Air France'', Str ''A320''), (''f2'', Str ''Air France'', Str ''B777''),
                (''f3'', Str ''Air France'', Str ''A350''), (''f4'', Str ''Air France'', Str ''A320''),
                (''f5'', Null, Str ''A320''), (''f6'', Str ''Air France'', Str ''A380''),
                (''f7'', Str ''Air France'', Str ''B777''), (''f8'', Str ''Air France'', Null),
                (''f9'', Str ''Air France'', Str ''A320'')]\<rparr>"

text \<open>
  Q2: a regional flight of a continent has that continent at both ends. The count of a
  group is \<open>COUNT(airline_name)\<close>: the flights of the group whose airline name is not
  null. \<open>q2_row\<close> is the row of a continent and an airline with that count.
\<close>

definition regional_flights :: "val \<Rightarrow> val \<Rightarrow> dataframe \<Rightarrow> nat" where
  "regional_flights k a df =
     length (filter (\<lambda>r. getcol ''origin_airport_continent'' r = k \<and>
                         getcol ''destination_airport_continent'' r = k \<and>
                         getcol ''airline_name'' r = a) (rows df))"

definition regional_count :: "val \<Rightarrow> val \<Rightarrow> dataframe \<Rightarrow> nat" where
  "regional_count k a df = (if a = Null then 0 else regional_flights k a df)"

definition q2_row :: "val \<Rightarrow> val \<Rightarrow> dataframe \<Rightarrow> row" where
  "q2_row k a df =
     [(''continent'', k), (''airline_name'', a), (''number_of_flights'', Num (real (regional_count k a df)))]"

text \<open>
  A fixture for Q2: the only regional flight of Europe has no airline name, Antarctica
  (a continent code the continent table does not have) has one regional flight, and
  Asia has two regional flights of one airline and one of another.
\<close>

definition q2_fixture :: dataframe where
  "q2_fixture =
     \<lparr>columns = [''origin_airport_continent'', ''destination_airport_continent'', ''airline_name''],
      rows = map (\<lambda>f. [(''origin_airport_continent'', fst f), (''destination_airport_continent'', fst (snd f)),
                        (''airline_name'', snd (snd f))])
               [(Str ''EU'', Str ''EU'', Null), (Str ''AN'', Str ''AN'', Str ''Polar Air''),
                (Str ''AS'', Str ''AS'', Str ''ANA''), (Str ''AS'', Str ''AS'', Str ''JAL''),
                (Str ''AS'', Str ''EU'', Str ''JAL''), (Str ''AS'', Str ''AS'', Str ''ANA'')]\<rparr>"

text \<open>
  A row \<open>e\<close> keeps a row \<open>l\<close> apart from the columns named in \<open>X\<close>: every other column
  of \<open>l\<close> is a column of \<open>e\<close> with the same cell.
\<close>

definition keeps :: "string set \<Rightarrow> row \<Rightarrow> row \<Rightarrow> bool" where
  "keeps X l e = (\<forall>c \<in> set (map fst l) - X. c \<in> set (map fst e) \<and> getcol c e = getcol c l)"

text \<open>
  The rows one flight row has after each join of the enrichment (the airline join
  before its two columns are dropped).
\<close>

text \<open>
  What Spark's analysis asks of a frame before a query or a join runs: every column the
  code names is a column of the frame, once (a name that is missing, or that two
  columns share, is an \<open>AnalysisException\<close>). A frame is regular when each of its rows
  has the frame's columns.
\<close>

definition has_columns :: "string list \<Rightarrow> dataframe \<Rightarrow> bool" where
  "has_columns cs df = list_all (\<lambda>c. count_list (columns df) c = 1) cs"

definition frame_ok :: "dataframe \<Rightarrow> bool" where
  "frame_ok df = list_all (\<lambda>r. map fst r = columns df) (rows df)"

definition inputs_resolve :: "reference_data \<Rightarrow> dataframe \<Rightarrow> bool" where
  "inputs_resolve ref flights =
     (has_columns [''origin_airport_iata'', ''destination_airport_iata'', ''aircraft_code'',
                   ''airline_icao'', ''airline_iata''] flights \<and>
      has_columns [''iata_code'', ''continent'', ''latitude_deg'', ''longitude_deg''] (airports_csv ref) \<and>
      has_columns [''_c0'', ''_c2''] (planes_dat ref) \<and>
      has_columns [''_c1'', ''_c3'', ''_c4''] (airlines_dat ref))"

definition destination_rows :: "reference_data \<Rightarrow> row \<Rightarrow> row list" where
  "destination_rows ref l =
     join_using_rows ''destination_airport_iata'' LeftOuter (broadcast (df_airport_destination ref)) l"

definition origin_rows :: "reference_data \<Rightarrow> row \<Rightarrow> row list" where
  "origin_rows ref l =
     join_using_rows ''origin_airport_iata'' LeftOuter (broadcast (df_airport_origin ref)) l"

definition aircraft_rows :: "reference_data \<Rightarrow> row \<Rightarrow> row list" where
  "aircraft_rows ref l =
     join_rows (\<lambda>l r. sql_eq (getcol ''aircraft_code'' l) (getcol ''aircraft_code'' r)) LeftOuter
       (broadcast (df_aircrafts ref)) l"

definition airline_rows :: "reference_data \<Rightarrow> row \<Rightarrow> row list" where
  "airline_rows ref l =
     join_rows (\<lambda>l r. sql_or (sql_eq (getcol ''airline_icao'' l) (getcol ''airline_icao'' r))
                            (sql_eq (getcol ''airline_iata'' l) (getcol ''airline_iata'' r))) LeftOuter
       (broadcast (df_airlines ref)) l"

text \<open>
  Fixtures: reference files in which the airport CDG is listed twice, and a snapshot of
  one flight that matches nothing in the reference files.
\<close>

definition twin_reference :: reference_data where
  "twin_reference =
     \<lparr>parse_float = parse_float small_reference,
      airports_csv = \<lparr>columns = columns (airports_csv small_reference),
                       rows = rows (airports_csv small_reference) @ rows (airports_csv small_reference)\<rparr>,
      planes_dat = planes_dat small_reference,
      airlines_dat = airlines_dat small_reference\<rparr>"

definition unmatched_flight :: dataframe where
  "unmatched_flight =
     \<lparr>columns = [''id'', ''origin_airport_iata'', ''destination_airport_iata'', ''aircraft_code'',
                 ''airline_iata'', ''airline_icao'', ''on_ground''],
      rows = [[(''id'', Str ''f2''), (''origin_airport_iata'', Str ''ZZZ''),
               (''destination_airport_iata'', Str ''YYY''), (''aircraft_code'', Str ''X000''),
               (''airline_iata'', Str ''ZZ''), (''airline_icao'', Str ''ZZZ''), (''on_ground'', Num 0)]]\<rparr>"

definition cdg_jfk :: row where
  "cdg_jfk = hd (rows one_flight)"

definition unmatched_row :: row where
  "unmatched_row = hd (rows unmatched_flight)"

text \<open>The unmatched flight after the two airport joins, and after the whole enrichment.\<close>

definition unmatched_joined :: dataframe where
  "unmatched_joined =
     \<lparr>columns = [''origin_airport_iata'', ''destination_airport_iata'', ''id'', ''aircraft_code'',
                 ''airline_iata'', ''airline_icao'', ''on_ground'', ''destination_latitude_deg'',
                 ''destination_longitude_deg'', ''destination_airport_continent'', ''origin_latitude_deg'',
                 ''origin_longitude_deg'', ''origin_airport_continent''],
      rows = [[(''origin_airport_iata'', Str ''ZZZ''), (''destination_airport_iata'', Str ''YYY''),
               (''id'', Str ''f2''), (''aircraft_code'', Str ''X000''), (''airline_iata'', Str ''ZZ''),
               (''airline_icao'', Str ''ZZZ''), (''on_ground'', Num 0),
               (''destination_latitude_deg'', Null), (''destination_longitude_deg'', Null),
               (''destination_airport_continent'', Null), (''origin_latitude_deg'', Null),
               (''origin_longitude_deg'', Null), (''origin_airport_continent'', Null)]]\<rparr>"

definition unmatched_enriched :: dataframe where
  "unmatched_enriched =
     \<lparr>columns = [''origin_airport_iata'', ''destination_airport_iata'', ''id'', ''aircraft_code'',
                 ''on_ground'', ''destination_latitude_deg'', ''destination_longitude_deg'',
                 ''destination_airport_continent'', ''origin_latitude_deg'', ''origin_longitude_deg'',
                 ''origin_airport_continent'', ''distance'', ''aircraft_name'', ''aircraft_code'',
                 ''airline_name''],
      rows = [[(''origin_airport_iata'', Str ''ZZZ''), (''destination_airport_iata'', Str ''YYY''),
               (''id'', Str ''f2''), (''aircraft_code'', Str ''X000''), (''on_ground'', Num 0),
               (''destination_latitude_deg'', Null), (''destination_longitude_deg'', Null),
               (''destination_airport_continent'', Null), (''origin_latitude_deg'', Null),
               (''origin_longitude_deg'', Null), (''origin_airport_continent'', Null),
               (''distance'', Null), (''aircraft_name'', Null), (''aircraft_code'', Null),
               (''airline_name'', Null)]]\<rparr>"

text \<open>
  A query as Spark runs it: the analysis comes first, and a column the query names that
  does not resolve in the frame is an \<open>AnalysisException\<close>; then the query is
  evaluated. Each query is given with the columns its text names.
\<close>

datatype spark_error = AnalysisException

definition analysed ::
  "string list \<Rightarrow> (dataframe \<Rightarrow> dataframe) \<Rightarrow> dataframe \<Rightarrow> spark_error + dataframe" where
  "analysed cs q df = (if has_columns cs df then Inr (q df) else Inl AnalysisException)"

definition run_q1 :: "dataframe \<Rightarrow> spark_error + dataframe" where
  "run_q1 df_active = analysed [''airline_name''] df_q1 df_active"

definition run_q2 :: "dataframe \<Rightarrow> spark_error + dataframe" where
  "run_q2 df_active =
     analysed [''origin_airport_continent'', ''destination_airport_continent'', ''airline_name''] df_q2 df_active"

definition run_q3 :: "dataframe \<Rightarrow> spark_error + dataframe" where
  "run_q3 df_active = analysed [''distance''] df_q3 df_active"

definition run_q4 :: "dataframe \<Rightarrow> spark_error + dataframe" where
  "run_q4 df = analysed [''origin_airport_continent'', ''distance''] df_q4 df"

definition run_q5 :: "dataframe \<Rightarrow> spark_error + dataframe" where
  "run_q5 df_active = analysed [''aircraft_name''] df_q5 df_active"

definition run_q6 :: "dataframe \<Rightarrow> spark_error + dataframe" where
  "run_q6 df = analysed [''airline_name'', ''aircraft_name''] df_q6 df"

definition run_qb :: "dataframe \<Rightarrow> spark_error + dataframe" where
  "run_qb df = analysed [''origin_airport_iata'', ''id'', ''destination_airport_iata''] df_qb df"

text \<open>
  A snapshot without flights, with the columns of a snapshot, and what the enrichment
  makes of it with the small reference files.
\<close>

definition empty_snapshot :: dataframe where
  "empty_snapshot = \<lparr>columns = columns one_flight, rows = []\<rparr>"

definition empty_joined :: dataframe where
  "empty_joined = \<lparr>columns = columns one_flight_joined, rows = []\<rparr>"

definition empty_enriched :: dataframe where
  "empty_enriched = \<lparr>columns = columns one_flight_enriched, rows = []\<rparr>"

text \<open>
  A snapshot with the flights A to B, B to A and five flights C to D.
\<close>

definition abcd_flights :: dataframe where
  "abcd_flights =
     \<lparr>columns = [''id'', ''origin_airport_iata'', ''destination_airport_iata''],
      rows = map (\<lambda>f. [(''id'', Str (fst f)), (''origin_airport_iata'', Str (fst (snd f))),
                        (''destination_airport_iata'', Str (snd (snd f)))])
               [(''f1'', ''A'', ''B''), (''f2'', ''B'', ''A''), (''f3'', ''C'', ''D''), (''f4'', ''C'', ''D''),
                (''f5'', ''C'', ''D''), (''f6'', ''C'', ''D''), (''f7'', ''C'', ''D'')]\<rparr>"

section \<open>Facts about the distance function\<close>

lemma hav_a_alt:
  "hav_a lat1 lon1 lat2 lon2 =
     (1 - (sin lat1 * sin lat2 + cos lat1 * cos lat2 * cos (lon2 - lon1))) / 2"
proof -
  have h: "(sin (x / 2))\<^sup>2 = (1 - cos x) / 2" for x :: real
    using cos_double_sin [of "x / 2"] by simp
  have "cos (lat2 - lat1) = cos lat1 * cos lat2 + sin lat1 * sin lat2"
    by (simp add: cos_diff mult.commute)
  then show ?thesis
    by (simp add: hav_a_def Let_def h field_simps)
qed

lemma dot_bounds:
  fixes t :: real
  assumes "- 1 \<le> t" "t \<le> 1"
  shows "\<bar>sin x * sin y + cos x * cos y * t\<bar> \<le> 1"
proof -
  let ?p = "cos x * cos y"
  let ?s = "sin x * sin y"
  have up: "?s + ?p = cos (x - y)" by (simp add: cos_diff)
  have dn: "?s - ?p = - cos (x + y)" by (simp add: cos_add)
  have b1: "\<bar>?s + ?p\<bar> \<le> 1" unfolding up by (rule abs_cos_le_one)
  have b2: "\<bar>?s - ?p\<bar> \<le> 1" unfolding dn by simp
  show ?thesis
  proof (cases "0 \<le> ?p")
    case True
    have "?p * t \<le> ?p * 1" using assms(2) True by (rule mult_left_mono)
    moreover have "?p * (- 1) \<le> ?p * t" using assms(1) True by (rule mult_left_mono)
    ultimately show ?thesis using b1 b2 by (simp add: abs_le_iff)
  next
    case False
    then have neg: "?p \<le> 0" by simp
    have "?p * 1 \<le> ?p * t" using assms(2) neg by (rule mult_left_mono_neg)
    moreover have "?p * t \<le> ?p * (- 1)" using assms(1) neg by (rule mult_left_mono_neg)
    ultimately show ?thesis using b1 b2 by (simp add: abs_le_iff)
  qed
qed

lemma hav_a_range: "0 \<le> hav_a lat1 lon1 lat2 lon2 \<and> hav_a lat1 lon1 lat2 lon2 \<le> 1"
proof -
  have "\<bar>sin lat1 * sin lat2 + cos lat1 * cos lat2 * cos (lon2 - lon1)\<bar> \<le> 1"
    by (rule dot_bounds) (simp_all add: cos_ge_minus_one)
  then show ?thesis
    by (simp add: hav_a_alt abs_le_iff)
qed

lemma atan2_sqrt:
  assumes "0 \<le> a" "a \<le> 1"
  shows "atan2 (sqrt a) (sqrt (1 - a)) = arcsin (sqrt a)"
proof (cases "a = 1")
  case True
  then show ?thesis by (simp add: atan2_def)
next
  case False
  with assms have lt: "a < 1" by simp
  let ?s = "sqrt a"
  have s0: "0 \<le> ?s" and s1: "?s < 1"
    using assms lt by (simp_all add: real_sqrt_lt_1_iff)
  have sq: "?s\<^sup>2 = a" using assms by simp
  have sm: "- 1 < ?s" using s0 by linarith
  have pos: "0 < sqrt (1 - a)" using lt by simp
  have bnd: "- (pi / 2) < arcsin ?s \<and> arcsin ?s < pi / 2"
    using sm s1 by (rule arcsin_lt_bounded)
  have "cos (arcsin ?s) = sqrt (1 - ?s\<^sup>2)"
    using sm s1 by (intro cos_arcsin) simp_all
  then have "tan (arcsin ?s) = ?s / sqrt (1 - a)"
    using sm s1 by (simp add: tan_def sq)
  then have "arctan (?s / sqrt (1 - a)) = arcsin ?s"
    using bnd by (intro arctan_unique) simp_all
  then show ?thesis using pos by (simp add: atan2_def)
qed

lemma distance_present:
  "distance (Some lat1) (Some lon1) (Some lat2) (Some lon2) =
     Inr (PyFloat (haversine_km 6373 lat1 lon1 lat2 lon2))"
proof -
  let ?a = "hav_a (radians lat1) (radians lon1) (radians lat2) (radians lon2)"
  have r: "0 \<le> ?a" "?a \<le> 1" using hav_a_range by simp_all
  have "atan2 (sqrt ?a) (sqrt (1 - ?a)) = arcsin (sqrt ?a)"
    using r by (rule atan2_sqrt)
  moreover have "haversine_km 6373 lat1 lon1 lat2 lon2 = 2 * 6373 * arcsin (sqrt ?a)"
    by (simp add: haversine_km_def hav_a_def Let_def)
  ultimately show ?thesis
    using r by (simp add: distance_def py_sqrt_def Let_def)
qed

lemma haversine_km_range:
  "0 \<le> haversine_km 6373 lat1 lon1 lat2 lon2 \<and> haversine_km 6373 lat1 lon1 lat2 lon2 \<le> pi * 6373"
proof -
  let ?a = "hav_a (radians lat1) (radians lon1) (radians lat2) (radians lon2)"
  have r: "0 \<le> ?a" "?a \<le> 1" using hav_a_range by simp_all
  have e: "haversine_km 6373 lat1 lon1 lat2 lon2 = 2 * 6373 * arcsin (sqrt ?a)"
    by (simp add: haversine_km_def hav_a_def Let_def)
  have s: "0 \<le> sqrt ?a" "sqrt ?a \<le> 1" using r by simp_all
  have sm: "- 1 \<le> sqrt ?a" using s(1) by linarith
  have "arcsin 0 \<le> arcsin (sqrt ?a)"
    using s by (subst arcsin_le_mono) simp_all
  then have lo: "0 \<le> arcsin (sqrt ?a)" by simp
  have hi: "arcsin (sqrt ?a) \<le> pi / 2"
    using sm s(2) by (rule arcsin_ubound)
  show ?thesis unfolding e using lo hi by simp
qed

lemma sin_half_diff_sq:
  fixes x y :: real
  shows "(sin ((x - y) / 2))\<^sup>2 = (sin ((y - x) / 2))\<^sup>2"
proof -
  have "(x - y) / 2 = - ((y - x) / 2)" by (simp add: field_simps)
  then have "sin ((x - y) / 2) = - sin ((y - x) / 2)" by (metis sin_minus)
  then show ?thesis by simp
qed

lemma haversine_km_sym:
  "haversine_km R lat1 lon1 lat2 lon2 = haversine_km R lat2 lon2 lat1 lon1"
  unfolding haversine_km_def
  by (simp add: sin_half_diff_sq [of "radians lat2" "radians lat1"]
      sin_half_diff_sq [of "radians lon2" "radians lon1"] mult.commute)

lemma distance_absent:
  "lat1 = None \<or> lon1 = None \<or> lat2 = None \<or> lon2 = None \<Longrightarrow>
     distance lat1 lon1 lat2 lon2 = Inr (PyInt (- 1))"
  by (simp add: distance_def)

lemma distance_total: "\<exists>v. distance lat1 lon1 lat2 lon2 = Inr v"
proof (cases "lat1 = None \<or> lon1 = None \<or> lat2 = None \<or> lon2 = None")
  case True
  then show ?thesis using distance_absent by blast
next
  case False
  then obtain a b c d where "lat1 = Some a" "lon1 = Some b" "lat2 = Some c" "lon2 = Some d"
    by auto
  then show ?thesis using distance_present by simp
qed

section \<open>The claims about the distance function\<close>

text \<open>
  The function over the real numbers. With an argument absent it returns the Python
  integer \<open>-1\<close>, whatever the other three are; with all four present it returns the
  haversine great-circle distance for the radius 6373 km; and in real arithmetic it
  returns on every input.
\<close>

lemma distance_over_reals:
  "(lat1 = None \<or> lon1 = None \<or> lat2 = None \<or> lon2 = None \<longrightarrow>
      distance lat1 lon1 lat2 lon2 = Inr (PyInt (- 1)) \<and> py_num (PyInt (- 1)) = Some (- 1))
   \<and> distance (Some a) (Some b) (Some c) (Some d) = Inr (PyFloat (haversine_km 6373 a b c d))
   \<and> (\<exists>v. distance lat1 lon1 lat2 lon2 = Inr v)"
  using distance_absent [of lat1 lon1 lat2 lon2] distance_present [of a b c d]
    distance_total [of lat1 lon1 lat2 lon2]
  by simp

lemma distance_over_reals_example:
  "distance (Some 48) None (Some 0) (Some 0) = Inr (PyInt (- 1))
   \<and> distance (Some 0) (Some 0) (Some 0) (Some 0) = Inr (PyFloat 0)"
  using distance_over_reals [of "Some 48" None "Some 0" "Some 0" 0 0 0 0]
  by (simp add: haversine_km_def radians_def)

text \<open>
  C3 at a failing input. The claim has the function return exactly the float \<open>-1.0\<close>
  when a coordinate is absent. With the origin longitude absent the function returns
  the Python integer \<open>-1\<close>, which is not a float, and the float column of the
  user-defined function takes it as null. (The claim's other failure, the
  \<open>ValueError\<close> at the coordinates \<open>(8, 0)\<close> and \<open>(-8, 180)\<close>, is one of double
  precision, which real arithmetic does not show.)
\<close>

theorem distance_sentinel_is_integer:
  "distance (Some 48) None (Some 0) (Some 0) = Inr (PyInt (- 1))
   \<and> PyInt (- 1) \<noteq> PyFloat (- 1)
   \<and> from_python_FloatType (PyInt (- 1)) = Null
   \<and> distance_udf (Num 48) Null (Num 0) (Num 0) = Inr Null"
  by (simp add: distance_def distance_udf_def to_python_def from_python_FloatType_def)

text \<open>
  C9. The distance function is symmetric: with all four coordinates present, the
  distance from the first point to the second is the distance from the second to the
  first.
\<close>

theorem distance_symmetric:
  "distance (Some lat1) (Some lon1) (Some lat2) (Some lon2) =
   distance (Some lat2) (Some lon2) (Some lat1) (Some lon1)"
  by (simp add: distance_present haversine_km_sym [of 6373 lat1 lon1 lat2 lon2])

section \<open>Facts about the data frame operations\<close>

lemma rows_filter_df [simp]: "rows (filter_df p df) = filter (\<lambda>r. p r = Some True) (rows df)"
  by (simp add: filter_df_def)

lemma columns_filter_df [simp]: "columns (filter_df p df) = columns df"
  by (simp add: filter_df_def)

lemma rows_drop_cols [simp]:
  "rows (drop_cols cs df) = map (filter (\<lambda>kv. fst kv \<notin> set cs)) (rows df)"
  by (simp add: drop_cols_def)

lemma rows_withColumnRenamed [simp]:
  "rows (withColumnRenamed old new df) = map (map (\<lambda>kv. (rename old new (fst kv), snd kv))) (rows df)"
  by (simp add: withColumnRenamed_def)

lemma rows_withColumn [simp]: "rows (withColumn c f df) = map (\<lambda>r. put_col c (f r) r) (rows df)"
  by (simp add: withColumn_def)

lemma rows_select [simp]:
  "rows (select cs df) = map (\<lambda>r. map (\<lambda>c. (c, getcol c r)) cs) (rows df)"
  by (simp add: select_def)

lemma rows_limit [simp]: "rows (limit n df) = take n (rows df)"
  by (simp add: limit_def)

lemma rows_join [simp]:
  "rows (join left right on h) = concat (map (join_rows on h right) (rows left))"
  by (simp add: join_def)

lemma rows_join_using [simp]:
  "rows (join_using left right k h) = concat (map (join_using_rows k h right) (rows left))"
  by (simp add: join_using_def)

lemma rows_order_by_desc [simp]:
  "rows (order_by_desc c df) = sort_key (\<lambda>r. desc_key (getcol c r)) (rows df)"
  by (simp add: order_by_desc_def)

lemma rows_group_by_agg_empty [simp]: "rows df = [] \<Longrightarrow> rows (group_by_agg ks aggs df) = []"
  by (simp add: group_by_agg_def)

lemma rows_row_number_over_empty [simp]: "rows df = [] \<Longrightarrow> rows (row_number_over p ord df) = []"
  by (simp add: row_number_over_def)

lemma sql_not_isin_placeholder:
  "sql_not (isin v [Str ''NaN'', Str ''N/A'']) = Some True \<longleftrightarrow> usable_code v"
  by (auto simp: sql_not_def isin_def usable_code_def)

section \<open>Cleaning\<close>

text \<open>
  C4. \<open>clean_dataframe\<close> returns exactly the rows of the raw frame whose origin and
  destination codes are both usable (present, and neither placeholder), each row as
  it was and in the order it had; the columns are those of the raw frame and the
  number of rows does not grow.
\<close>

theorem clean_dataframe_subset:
  "rows (clean_dataframe df) =
     filter (\<lambda>r. usable_code (getcol ''origin_airport_iata'' r) \<and>
                  usable_code (getcol ''destination_airport_iata'' r)) (rows df)
   \<and> columns (clean_dataframe df) = columns df
   \<and> length (rows (clean_dataframe df)) \<le> length (rows df)"
  by (simp add: clean_dataframe_def Let_def sql_not_isin_placeholder conj_commute)

section \<open>Q4: the mean distance per origin continent\<close>

lemma remdups_map_singleton:
  "remdups (map (\<lambda>r. [f r]) xs) = map (\<lambda>v. [v]) (remdups (map f xs))"
  by (induction xs) auto

lemma rows_group_by_agg_single:
  "rows (group_by_agg [c] [(n, a)] df) =
     map (\<lambda>v. [(c, v), (n, eval_agg a (filter (\<lambda>r. getcol c r = v) (rows df)))])
       (remdups (map (getcol c) (rows df)))"
proof -
  have k: "key_of [c] = (\<lambda>r. [getcol c r])" by (rule ext) (simp add: key_of_def)
  show ?thesis
    by (simp add: group_by_agg_def k remdups_map_singleton comp_def)
qed

lemma sql_gt_zero: "sql_gt (getcol ''distance'' r) (Num 0) = Some True \<longleftrightarrow> positive_distance r"
  by (simp add: sql_gt_def positive_distance_def split: val.splits)

lemma nums_nonempty:
  "r \<in> set rs \<Longrightarrow> getcol c r = Num x \<Longrightarrow> nums c rs \<noteq> []"
  by (induction rs) (auto simp: nums_def List.map_filter_simps split: val.splits)

lemma eval_agg_Avg: "nums c rs \<noteq> [] \<Longrightarrow> eval_agg (Avg c) rs = Num (mean (nums c rs))"
  by (cases "nums c rs") (simp_all add: mean_def)

lemma rows_q4_means:
  "rows (q4_means df) =
     map (\<lambda>k. [(''origin_airport_continent'', k), (''distance_mean'', Num (mean (group_distances k df)))])
       (remdups (map (getcol ''origin_airport_continent'') (filter positive_distance (rows df))))"
proof -
  let ?P = "filter positive_distance (rows df)"
  have avg: "eval_agg (Avg ''distance'') (filter (\<lambda>r. getcol ''origin_airport_continent'' r = k) ?P)
      = Num (mean (group_distances k df))"
    if "k \<in> set (remdups (map (getcol ''origin_airport_continent'') ?P))" for k
  proof -
    from that obtain r where r: "r \<in> set (rows df)" "positive_distance r"
      "getcol ''origin_airport_continent'' r = k" by auto
    then obtain x where "getcol ''distance'' r = Num x"
      by (auto simp: positive_distance_def split: val.splits)
    with r have "nums ''distance'' (filter (\<lambda>r. getcol ''origin_airport_continent'' r = k) ?P) \<noteq> []"
      by (intro nums_nonempty [of r]) auto
    then show ?thesis
      unfolding group_distances_def by (rule eval_agg_Avg)
  qed
  have P: "rows (filter_df (\<lambda>r. sql_gt (getcol ''distance'' r) (Num 0)) df) = ?P"
    by (simp add: sql_gt_zero)
  show ?thesis
    unfolding q4_means_def rows_group_by_agg_single P
    by (rule map_cong [OF refl]) (simp only: avg)
qed

lemma join_continent_rows:
  "join_rows (\<lambda>l r. sql_eq (getcol c l) (getcol ''continent'' r)) LeftOuter df_continent l =
     [l @ [(''continent_name'', continent_name_of (getcol c l)),
           (''continent'', if continent_name_of (getcol c l) = Null then Null else getcol c l)]]"
  by (simp add: join_rows_def df_continent_def broadcast_def sql_eq_def getcol_def null_row_def
      continent_name_of_def Let_def)

lemma rows_df_q4:
  "rows (df_q4 df) =
     map (\<lambda>k. [(''distance_mean'', Num (mean (group_distances k df))),
                (''continent_name'', continent_name_of k)])
       (remdups (map (getcol ''origin_airport_continent'') (filter positive_distance (rows df))))"
proof -
  have "rows (df_q4 df) =
     map (filter (\<lambda>kv. fst kv \<notin> set [''origin_airport_continent'', ''continent'']))
       (concat (map (join_rows (\<lambda>l r. sql_eq (getcol ''origin_airport_continent'' l) (getcol ''continent'' r))
                  LeftOuter df_continent) (rows (q4_means df))))"
    by (simp add: df_q4_def Let_def)
  also have "\<dots> = map (\<lambda>k. [(''distance_mean'', Num (mean (group_distances k df))),
                (''continent_name'', continent_name_of k)])
       (remdups (map (getcol ''origin_airport_continent'') (filter positive_distance (rows df))))"
    unfolding join_continent_rows rows_q4_means
    by (simp add: comp_def getcol_def)
  finally show ?thesis .
qed

lemma group_distances_positive_only:
  "group_distances k (df\<lparr>rows := filter positive_distance (rows df)\<rparr>) = group_distances k df"
  by (simp add: group_distances_def)

text \<open>
  C5. Q4 has one row per origin continent that has at least one row of the enriched set
  with distance greater than 0; its mean is the arithmetic mean of the distances
  greater than 0 of that continent's rows. The rows with a distance that is not
  greater than 0 (a negative number such as \<open>-1\<close>, zero, or null) take no part: Q4 of
  the set is Q4 of the set without them.
\<close>

theorem q4_mean_of_positive_distances:
  "rows (q4_means df) =
     map (\<lambda>k. [(''origin_airport_continent'', k), (''distance_mean'', Num (mean (group_distances k df)))])
       (remdups (map (getcol ''origin_airport_continent'') (filter positive_distance (rows df))))
   \<and> rows (df_q4 df) =
     map (\<lambda>k. [(''distance_mean'', Num (mean (group_distances k df))),
                (''continent_name'', continent_name_of k)])
       (remdups (map (getcol ''origin_airport_continent'') (filter positive_distance (rows df))))
   \<and> rows (df_q4 (df\<lparr>rows := filter positive_distance (rows df)\<rparr>)) = rows (df_q4 df)"
  by (simp add: rows_q4_means rows_df_q4 group_distances_positive_only)

theorem q4_mean_of_positive_distances_witness:
  "rows (df_q4 q4_fixture) = [[(''distance_mean'', Num 200), (''continent_name'', Str ''Europe'')]]"
  using q4_mean_of_positive_distances [of q4_fixture]
  by (simp add: q4_fixture_def positive_distance_def getcol_def group_distances_def nums_def
      List.map_filter_simps mean_def continent_name_of_def)

section \<open>Q3 and QB: the rows at the maximum\<close>

lemma fold_max_Max: "fold max xs (x::real) = Max (set (x # xs))"
  by (rule Max.set_eq_fold [symmetric])

lemma eval_agg_MaxOf:
  "nums c rs \<noteq> [] \<Longrightarrow> eval_agg (MaxOf c) rs = Num (Max (set (nums c rs)))"
  by (cases "nums c rs") (simp_all add: fold_max_Max del: set_simps)

lemma set_nums: "set (nums c rs) = {x. \<exists>r \<in> set rs. getcol c r = Num x}"
  by (induction rs) (auto simp: nums_def List.map_filter_simps split: val.splits)

lemma rows_at_max:
  assumes "nums c rs \<noteq> []"
  shows "filter (\<lambda>r. sql_eq (getcol c r) (eval_agg (MaxOf c) rs) = Some True) rs =
           filter (\<lambda>r. getcol c r = Num (Max (set (nums c rs)))) rs"
    and "filter (\<lambda>r. getcol c r = Num (Max (set (nums c rs)))) rs \<noteq> []"
proof -
  show "filter (\<lambda>r. sql_eq (getcol c r) (eval_agg (MaxOf c) rs) = Some True) rs =
           filter (\<lambda>r. getcol c r = Num (Max (set (nums c rs)))) rs"
    unfolding eval_agg_MaxOf [OF assms]
    by (rule filter_cong [OF refl]) (auto simp: sql_eq_def)
  have "Max (set (nums c rs)) \<in> set (nums c rs)"
    using assms by (intro Max_in) simp_all
  then obtain r where "r \<in> set rs" "getcol c r = Num (Max (set (nums c rs)))"
    unfolding set_nums by blast
  then show "filter (\<lambda>r. getcol c r = Num (Max (set (nums c rs)))) rs \<noteq> []"
    by (auto simp: filter_empty_conv)
qed

lemma rows_at_max_none:
  "nums c rs = [] \<Longrightarrow> filter (\<lambda>r. sql_eq (getcol c r) (eval_agg (MaxOf c) rs) = Some True) rs = []"
  by (simp add: sql_eq_def)

lemma filter_eq_remdups: "filter (\<lambda>w. w = v) (remdups ws) = (if v \<in> set ws then [v] else [])"
  by (induction ws) auto

lemma concat_map_if: "concat (map (\<lambda>x. if P x then [f x] else []) xs) = map f (filter P xs)"
  by (induction xs) auto

lemma eval_agg_Count_departures:
  "eval_agg (Count ''id'') (filter (\<lambda>r. getcol ''origin_airport_iata'' r = k) (rows df)) = Num (real (departures k df))"
  by (simp add: departures_def)

lemma eval_agg_Count_arrivals:
  "eval_agg (Count ''id'') (filter (\<lambda>r. getcol ''destination_airport_iata'' r = k) (rows df)) = Num (real (arrivals k df))"
  by (simp add: arrivals_def)

lemma rows_qb_differences:
  "rows (qb_differences df) =
     map (\<lambda>k. [(''airport_iata'', k), (''difference'', Num (imbalance df k))]) (both_roles df)"
proof -
  let ?o = "''origin_airport_iata''" and ?d = "''destination_airport_iata''"
  let ?row1 = "\<lambda>v. [(?o, v), (''nb_departures'', Num (real (departures v df)))]"
  let ?row2 = "\<lambda>w. [(?d, w), (''nb_arrivals'', Num (real (arrivals w df)))]"
  let ?ks = "filter (\<lambda>k. k \<noteq> Null) (remdups (map (getcol ?o) (rows df)))"
  let ?ws = "filter (\<lambda>k. k \<noteq> Null) (remdups (map (getcol ?d) (rows df)))"
  let ?q1 = "filter_df (\<lambda>r. isNotNull (getcol ?o r)) (group_by_agg [?o] [(''nb_departures'', Count ''id'')] df)"
  let ?q2 = "filter_df (\<lambda>r. isNotNull (getcol ?d r)) (group_by_agg [?d] [(''nb_arrivals'', Count ''id'')] df)"
  have r1: "rows ?q1 = map ?row1 ?ks"
    unfolding rows_filter_df rows_group_by_agg_single eval_agg_Count_departures
    by (simp add: filter_map comp_def isNotNull_def getcol_def)
  have r2: "rows ?q2 = map ?row2 ?ws"
    unfolding rows_filter_df rows_group_by_agg_single eval_agg_Count_arrivals
    by (simp add: filter_map comp_def isNotNull_def getcol_def)
  have j: "join_rows (\<lambda>l r. sql_eq (getcol ?o l) (getcol ?d r)) Inner ?q2 (?row1 v) =
      (if v \<in> set (map (getcol ?d) (rows df)) then [?row1 v @ ?row2 v] else [])"
    if "v \<noteq> Null" for v
  proof -
    have "filter (\<lambda>w. sql_eq v w = Some True) ?ws = filter (\<lambda>w. w = v) ?ws"
      by (rule filter_cong [OF refl]) (auto simp: sql_eq_def that)
    then have "filter (\<lambda>r. sql_eq (getcol ?o (?row1 v)) (getcol ?d r) = Some True) (rows ?q2)
        = map ?row2 (filter (\<lambda>w. w = v) ?ws)"
      unfolding r2 by (simp add: filter_map comp_def getcol_def)
    also have "filter (\<lambda>w. w = v) ?ws = filter (\<lambda>w. w = v) (remdups (map (getcol ?d) (rows df)))"
      unfolding filter_filter by (rule filter_cong [OF refl]) (auto simp: that)
    also have "map ?row2 (filter (\<lambda>w. w = v) (remdups (map (getcol ?d) (rows df))))
        = (if v \<in> set (map (getcol ?d) (rows df)) then [?row2 v] else [])"
      unfolding filter_eq_remdups by simp
    finally show ?thesis by (simp add: join_rows_def Let_def del: rows_filter_df)
  qed
  have "rows (join ?q1 ?q2 (\<lambda>l r. sql_eq (getcol ?o l) (getcol ?d r)) Inner) =
      concat (map (\<lambda>v. if v \<in> set (map (getcol ?d) (rows df)) then [?row1 v @ ?row2 v] else []) ?ks)"
    unfolding rows_join r1 map_map comp_def
    by (intro arg_cong [where f = concat] map_cong refl) (simp add: j del: rows_filter_df)
  also have "\<dots> = map (\<lambda>v. ?row1 v @ ?row2 v) (both_roles df)"
    unfolding concat_map_if both_roles_def ..
  finally have J: "rows (join ?q1 ?q2 (\<lambda>l r. sql_eq (getcol ?o l) (getcol ?d r)) Inner) =
      map (\<lambda>v. ?row1 v @ ?row2 v) (both_roles df)" .
  show ?thesis
    unfolding qb_differences_def Let_def rows_withColumnRenamed rows_drop_cols rows_withColumn J
    by (simp add: comp_def put_col_def getcol_def sql_abs_diff_def rename_def imbalance_def)
qed

lemma nums_difference:
  "nums ''difference'' (map (\<lambda>k. [(''airport_iata'', k), (''difference'', Num (f k))]) ks) = map f ks"
  by (induction ks) (simp_all add: nums_def List.map_filter_simps getcol_def)

lemma rows_df_qb:
  assumes "both_roles df \<noteq> []"
  shows "rows (df_qb df) =
     map (\<lambda>k. [(''airport_iata'', k), (''difference'', Num (imbalance df k))])
       (filter (\<lambda>k. imbalance df k = Max (imbalance df ` set (both_roles df))) (both_roles df))"
    and "rows (df_qb df) \<noteq> []"
proof -
  let ?D = "rows (qb_differences df)"
  have n: "nums ''difference'' ?D = map (imbalance df) (both_roles df)"
    unfolding rows_qb_differences by (rule nums_difference)
  then have ne: "nums ''difference'' ?D \<noteq> []" using assms by simp
  have r: "rows (df_qb df) = filter (\<lambda>r. getcol ''difference'' r = Num (Max (set (nums ''difference'' ?D)))) ?D"
    unfolding df_qb_def Let_def rows_filter_df by (rule rows_at_max(1) [OF ne])
  show "rows (df_qb df) \<noteq> []"
    unfolding r by (rule rows_at_max(2) [OF ne])
  show "rows (df_qb df) =
     map (\<lambda>k. [(''airport_iata'', k), (''difference'', Num (imbalance df k))])
       (filter (\<lambda>k. imbalance df k = Max (imbalance df ` set (both_roles df))) (both_roles df))"
    unfolding r n unfolding rows_qb_differences
    by (simp add: filter_map comp_def getcol_def)
qed

lemma rows_df_q3:
  assumes "nums ''distance'' (rows df_active) \<noteq> []"
  shows "rows (df_q3 df_active) =
     filter (\<lambda>r. getcol ''distance'' r = Num (Max (set (nums ''distance'' (rows df_active)))))
       (rows df_active)"
    and "rows (df_q3 df_active) \<noteq> []"
  using rows_at_max [OF assms] by (simp_all add: df_q3_def)

text \<open>
  What the two queries compute. Q3: when at least one active row has a distance that is
  not null, the result is not empty and holds exactly the active rows whose distance is
  the maximum of the distances that are not null. QB: only the airport codes that occur
  both as an origin and as a destination are looked at; when there is one, the result
  is not empty and holds exactly those of them whose imbalance is the maximum among
  them.
\<close>

lemma q3_qb_rows_at_maximum:
  "(nums ''distance'' (rows df_active) \<noteq> [] \<longrightarrow>
      rows (df_q3 df_active) =
        filter (\<lambda>r. getcol ''distance'' r = Num (Max (set (nums ''distance'' (rows df_active)))))
          (rows df_active)
      \<and> rows (df_q3 df_active) \<noteq> [])
   \<and> (both_roles df \<noteq> [] \<longrightarrow>
      rows (df_qb df) =
        map (\<lambda>k. [(''airport_iata'', k), (''difference'', Num (imbalance df k))])
          (filter (\<lambda>k. imbalance df k = Max (imbalance df ` set (both_roles df))) (both_roles df))
      \<and> rows (df_qb df) \<noteq> [])"
  using rows_df_q3 [of df_active] rows_df_qb [of df] by blast

lemma both_roles_xyz: "both_roles xyz_flights = [Str ''Y'', Str ''X'']"
  by (simp add: both_roles_def xyz_flights_def getcol_def)

lemma imbalance_xyz: "imbalance xyz_flights (Str ''X'') = 3" "imbalance xyz_flights (Str ''Y'') = 0"
  by (simp_all add: imbalance_def departures_def arrivals_def xyz_flights_def getcol_def)

lemma q3_qb_rows_at_maximum_example:
  "nums ''distance'' (rows three_active) \<noteq> []
   \<and> rows (df_q3 three_active) = [[(''id'', Str ''f1''), (''distance'', Num 5837)]]
   \<and> both_roles xyz_flights \<noteq> []
   \<and> rows (df_qb xyz_flights) = [[(''airport_iata'', Str ''X''), (''difference'', Num 3)]]"
proof -
  have n: "nums ''distance'' (rows three_active) = [5837, 344]"
    by (simp add: three_active_def nums_def List.map_filter_simps getcol_def)
  have q3: "rows (df_q3 three_active) = [[(''id'', Str ''f1''), (''distance'', Num 5837)]]"
    using q3_qb_rows_at_maximum [of three_active xyz_flights] n
    by (simp add: three_active_def getcol_def)
  have qb: "rows (df_qb xyz_flights) = [[(''airport_iata'', Str ''X''), (''difference'', Num 3)]]"
    using q3_qb_rows_at_maximum [of three_active xyz_flights]
    by (simp add: both_roles_xyz imbalance_xyz)
  show ?thesis using n q3 qb by (simp add: both_roles_xyz)
qed

section \<open>The pipeline on the one-flight snapshot\<close>

lemma one_flight_airport_joins:
  "join_origin small_reference (join_destination small_reference (clean_dataframe one_flight)) = one_flight_joined"
  by code_simp

lemma one_flight_distance:
  "add_distance_dataframe small_reference (clean_dataframe one_flight) =
     Inr (withColumn ''distance'' (\<lambda>r. Null) one_flight_joined)"
  unfolding add_distance_dataframe_def Let_def one_flight_airport_joins
  by (simp add: one_flight_joined_def withColumn_udf_def withColumn_def distance_udf_def distance_def
      to_python_def from_python_FloatType_def getcol_def)

lemma one_flight_reference_joins:
  "add_airlines_dataframe small_reference
     (add_aircrafts_dataframe small_reference (withColumn ''distance'' (\<lambda>r. Null) one_flight_joined)) =
   one_flight_enriched"
  by code_simp

lemma enriched_one_flight: "enriched small_reference one_flight = Inr one_flight_enriched"
  unfolding enriched_def Let_def one_flight_distance
  by (simp add: one_flight_reference_joins)

lemma qb_on_abcd:
  "rows (df_qb abcd_flights) =
     map (\<lambda>k. [(''airport_iata'', k), (''difference'', Num (imbalance abcd_flights k))])
       (filter (\<lambda>k. imbalance abcd_flights k = Max (imbalance abcd_flights ` set (both_roles abcd_flights)))
          (both_roles abcd_flights))"
proof -
  have "both_roles abcd_flights \<noteq> []"
    by (simp add: both_roles_def abcd_flights_def getcol_def)
  then show ?thesis by (rule rows_df_qb(1))
qed

text \<open>
  C1 at failing inputs. The claim: a non-empty active set gives a non-empty Q3, and a
  non-empty enriched set gives a non-empty QB that holds exactly the airports at the
  maximum imbalance. On the one-flight snapshot the destination is not in the airport
  file and the distance is null (the defect of C10): the active set is not empty and Q3
  is empty. CDG occurs only as an origin and JFK only as a destination, and the inner
  join of the departure and arrival counts has no row: the enriched set is not empty
  and QB is empty. On the snapshot with the flights A to B, B to A and five times C to
  D, QB holds A and B with the difference 0, while C has five departures and no
  arrival.
\<close>

theorem q3_qb_failing_inputs:
  "enriched small_reference one_flight = Inr one_flight_enriched
   \<and> rows (get_active_flights one_flight_enriched) \<noteq> []
   \<and> rows (df_q3 (get_active_flights one_flight_enriched)) = []
   \<and> rows one_flight_enriched \<noteq> []
   \<and> rows (df_qb one_flight_enriched) = []
   \<and> rows (df_qb abcd_flights) =
       [[(''airport_iata'', Str ''A''), (''difference'', Num 0)],
        [(''airport_iata'', Str ''B''), (''difference'', Num 0)]]
   \<and> departures (Str ''C'') abcd_flights = 5
   \<and> arrivals (Str ''C'') abcd_flights = 0"
proof -
  have a: "rows (get_active_flights one_flight_enriched) \<noteq> []" by code_simp
  have b: "rows (df_q3 (get_active_flights one_flight_enriched)) = []" by code_simp
  have c: "rows one_flight_enriched \<noteq> []" by code_simp
  have d: "rows (df_qb one_flight_enriched) = []" by code_simp
  have br: "both_roles abcd_flights = [Str ''A'', Str ''B'']"
    by (simp add: both_roles_def abcd_flights_def getcol_def)
  have im: "imbalance abcd_flights (Str ''A'') = 0" "imbalance abcd_flights (Str ''B'') = 0"
    by (simp_all add: imbalance_def departures_def arrivals_def abcd_flights_def getcol_def)
  have e: "rows (df_qb abcd_flights) =
       [[(''airport_iata'', Str ''A''), (''difference'', Num 0)],
        [(''airport_iata'', Str ''B''), (''difference'', Num 0)]]"
    unfolding qb_on_abcd br by (simp add: im)
  have f: "departures (Str ''C'') abcd_flights = 5"
    by (simp add: departures_def abcd_flights_def getcol_def)
  have g: "arrivals (Str ''C'') abcd_flights = 0"
    by (simp add: arrivals_def abcd_flights_def getcol_def)
  show ?thesis
    by (intro conjI) (rule enriched_one_flight, rule a, rule b, rule c, rule d, rule e, rule f, rule g)
qed

section \<open>The distance column\<close>

lemma distance_value_range:
  "distance lat1 lon1 lat2 lon2 = Inr v \<Longrightarrow>
     v = PyInt (- 1) \<or> (\<exists>x. v = PyFloat x \<and> 0 \<le> x \<and> x \<le> pi * 6373)"
proof (cases "lat1 = None \<or> lon1 = None \<or> lat2 = None \<or> lon2 = None")
  case True
  assume "distance lat1 lon1 lat2 lon2 = Inr v"
  with True show ?thesis using distance_absent [of lat1 lon1 lat2 lon2] by simp
next
  case False
  assume d: "distance lat1 lon1 lat2 lon2 = Inr v"
  from False obtain a b c e where "lat1 = Some a" "lon1 = Some b" "lat2 = Some c" "lon2 = Some e"
    by auto
  with d have "v = PyFloat (haversine_km 6373 a b c e)"
    by (simp add: distance_present)
  then show ?thesis using haversine_km_range [of a b c e] by simp
qed

text \<open>
  C10 on the one-flight snapshot: the destination airport is unknown, the distance
  function is called with two absent coordinates and returns the integer \<open>-1\<close>, and the
  distance cell of the enriched row is null, not \<open>-1\<close>.
\<close>

theorem distance_column_null:
  "enriched small_reference one_flight = Inr one_flight_enriched
   \<and> map (getcol ''distance'') (rows one_flight_enriched) = [Null]
   \<and> distance (Some 49) (Some 2) None None = Inr (PyInt (- 1))
   \<and> distance_udf (Num 49) (Num 2) Null Null = Inr Null"
proof -
  have "map (getcol ''distance'') (rows one_flight_enriched) = [Null]" by code_simp
  moreover have "distance (Some 49) (Some 2) None None = Inr (PyInt (- 1))"
    by (simp add: distance_def)
  moreover have "distance_udf (Num 49) (Num 2) Null Null = Inr Null"
    by (simp add: distance_udf_def distance_def to_python_def from_python_FloatType_def)
  ultimately show ?thesis using enriched_one_flight by simp
qed

section \<open>Ranking within partitions\<close>

lemma getcol_select_row:
  "c \<in> set cs \<Longrightarrow> getcol c (map (\<lambda>c. (c, f c)) cs) = f c"
  by (induction cs) (auto simp: getcol_def)

lemma getcol_append_left:
  "c \<in> set (map fst r) \<Longrightarrow> getcol c (r @ r') = getcol c r"
  by (induction r) (auto simp: getcol_def)

lemma getcol_append_right:
  "c \<notin> set (map fst r) \<Longrightarrow> getcol c (r @ r') = getcol c r'"
  by (induction r) (auto simp: getcol_def)

lemma enumerate_filter_le:
  "filter (\<lambda>ir. Suc (fst ir) \<le> n) (enumerate k rs) = enumerate k (take (n - k) rs)"
proof (induction rs arbitrary: k)
  case Nil
  then show ?case by simp
next
  case (Cons r rs)
  show ?case
  proof (cases "Suc k \<le> n")
    case True
    then obtain m where m: "n - k = Suc m" by (cases "n - k") auto
    then have "n - Suc k = m" by simp
    with True m Cons [of "Suc k"] show ?thesis by simp
  next
    case False
    then have "n - k = 0" "n - Suc k = 0" by simp_all
    with False Cons [of "Suc k"] show ?thesis by simp
  qed
qed

lemma snd_in_enumerate: "ir \<in> set (enumerate k rs) \<Longrightarrow> snd ir \<in> set rs"
  by (metis in_set_zipE enumerate_eq_zip prod.collapse)

lemma getcol_row_number:
  "''row_number'' \<notin> set (map fst r) \<Longrightarrow> getcol ''row_number'' (r @ [(''row_number'', v)]) = v"
  by (induction r) (auto simp: getcol_def)

lemma number_rows_keep:
  assumes "''row_number'' \<notin> set cs"
    and "\<forall>r \<in> set rs. map fst r = cs"
  shows "filter (\<lambda>r. sql_le (getcol ''row_number'' r) (Num (real n)) = Some True) (number_rows rs)
           = number_rows (take n rs)"
proof -
  have g: "getcol ''row_number'' (snd ir @ [(''row_number'', v)]) = v"
    if "ir \<in> set (enumerate 0 rs)" for ir v
  proof -
    from that have "snd ir \<in> set rs" by (rule snd_in_enumerate)
    with assms have "''row_number'' \<notin> set (map fst (snd ir))" by metis
    then show ?thesis by (rule getcol_row_number)
  qed
  have "filter (\<lambda>r. sql_le (getcol ''row_number'' r) (Num (real n)) = Some True) (number_rows rs)
      = map (\<lambda>ir. snd ir @ [(''row_number'', Num (real (Suc (fst ir))))])
          (filter (\<lambda>ir. Suc (fst ir) \<le> n) (enumerate 0 rs))"
    unfolding number_rows_def filter_map comp_def
    by (intro arg_cong [where f = "map _"] filter_cong refl) (simp add: g sql_le_def del: of_nat_Suc)
  then show ?thesis
    by (simp add: enumerate_filter_le number_rows_def)
qed

lemma number_rows_first:
  assumes "''row_number'' \<notin> set cs"
    and "\<forall>r \<in> set rs. map fst r = cs"
  shows "filter (\<lambda>r. sql_eq (getcol ''row_number'' r) (Num 1) = Some True) (number_rows rs)
           = number_rows (take 1 rs)"
proof -
  have g: "getcol ''row_number'' (snd ir @ [(''row_number'', v)]) = v"
    if "ir \<in> set (enumerate 0 rs)" for ir v
  proof -
    from that have "snd ir \<in> set rs" by (rule snd_in_enumerate)
    with assms have "''row_number'' \<notin> set (map fst (snd ir))" by metis
    then show ?thesis by (rule getcol_row_number)
  qed
  have "filter (\<lambda>r. sql_eq (getcol ''row_number'' r) (Num 1) = Some True) (number_rows rs)
      = map (\<lambda>ir. snd ir @ [(''row_number'', Num (real (Suc (fst ir))))])
          (filter (\<lambda>ir. Suc (fst ir) \<le> 1) (enumerate 0 rs))"
    unfolding number_rows_def filter_map comp_def
    by (intro arg_cong [where f = "map _"] filter_cong refl) (simp add: g sql_eq_def)
  then show ?thesis
    by (simp only: enumerate_filter_le number_rows_def) simp
qed

lemma select_number_rows:
  assumes "\<forall>r \<in> set rs. r = map (\<lambda>c. (c, getcol c r)) cs"
  shows "map (\<lambda>r. map (\<lambda>c. (c, getcol c r)) cs) (number_rows rs) = rs"
proof -
  have "map (\<lambda>c. (c, getcol c (r @ x))) cs = r" if "r \<in> set rs" for r x
  proof -
    from that assms have r: "r = map (\<lambda>c. (c, getcol c r)) cs" by blast
    then have f: "map fst r = cs" by (metis (no_types, lifting) map_map comp_def fst_conv map_idI)
    have "map (\<lambda>c. (c, getcol c (r @ x))) cs = map (\<lambda>c. (c, getcol c r)) cs"
      by (rule map_cong [OF refl]) (simp add: getcol_append_left f)
    with r show ?thesis by simp
  qed
  then have "map (\<lambda>ir. map (\<lambda>c. (c, getcol c (snd ir @ [(''row_number'', Num (real (Suc (fst ir))))]))) cs) (enumerate 0 rs)
      = map snd (enumerate 0 rs)"
    by (intro map_cong refl) (simp add: snd_in_enumerate)
  then show ?thesis by (simp add: number_rows_def comp_def)
qed

lemma select_row_names:
  "r = map (\<lambda>c. (c, getcol c r)) cs \<Longrightarrow> map fst r = cs"
  by (metis (no_types, lifting) map_map comp_def fst_conv map_idI)

lemma ranked_rows:
  assumes "''row_number'' \<notin> set cs"
    and "\<forall>r \<in> set (rows d). r = map (\<lambda>c. (c, getcol c r)) cs"
  shows "rows (select cs (filter_df (\<lambda>r. sql_le (getcol ''row_number'' r) (Num (real n)))
                 (row_number_over part ord d))) = top_per_group n part ord (rows d)"
    and "rows (select cs (filter_df (\<lambda>r. sql_eq (getcol ''row_number'' r) (Num 1))
                 (row_number_over part ord d))) = top_per_group 1 part ord (rows d)"
proof -
  let ?S = "\<lambda>k. sort_key (\<lambda>r. desc_key (getcol ord r)) (filter (\<lambda>r. getcol part r = k) (rows d))"
  have sel: "\<forall>r \<in> set (?S k). r = map (\<lambda>c. (c, getcol c r)) cs" for k
    using assms(2) by simp
  then have names: "\<forall>r \<in> set (?S k). map fst r = cs" for k
    using select_row_names by blast
  have sel': "\<forall>r \<in> set (take m (?S k)). r = map (\<lambda>c. (c, getcol c r)) cs" for k m
    using sel [of k] by (meson in_set_takeD)
  have a: "map (\<lambda>r. map (\<lambda>c. (c, getcol c r)) cs)
             (filter (\<lambda>r. sql_le (getcol ''row_number'' r) (Num (real n)) = Some True) (number_rows (?S k)))
           = take n (?S k)" for k
    unfolding number_rows_keep [OF assms(1) names] by (rule select_number_rows [OF sel'])
  have b: "map (\<lambda>r. map (\<lambda>c. (c, getcol c r)) cs)
             (filter (\<lambda>r. sql_eq (getcol ''row_number'' r) (Num 1) = Some True) (number_rows (?S k)))
           = take 1 (?S k)" for k
    unfolding number_rows_first [OF assms(1) names] by (rule select_number_rows [OF sel'])
  show "rows (select cs (filter_df (\<lambda>r. sql_le (getcol ''row_number'' r) (Num (real n)))
                 (row_number_over part ord d))) = top_per_group n part ord (rows d)"
    by (simp add: row_number_over_def top_per_group_def filter_concat map_concat comp_def a)
  show "rows (select cs (filter_df (\<lambda>r. sql_eq (getcol ''row_number'' r) (Num 1))
                 (row_number_over part ord d))) = top_per_group 1 part ord (rows d)"
    by (simp add: row_number_over_def top_per_group_def filter_concat map_concat comp_def b)
qed

lemma in_sorted_partition:
  "r \<in> set (take n (sort_key (\<lambda>r. desc_key (getcol ord r)) (filter (\<lambda>r. getcol part r = k) rs)))
     \<Longrightarrow> getcol part r = k \<and> r \<in> set rs"
proof -
  assume "r \<in> set (take n (sort_key (\<lambda>r. desc_key (getcol ord r)) (filter (\<lambda>r. getcol part r = k) rs)))"
  then have "r \<in> set (sort_key (\<lambda>r. desc_key (getcol ord r)) (filter (\<lambda>r. getcol part r = k) rs))"
    by (rule in_set_takeD)
  then show ?thesis by simp
qed

lemma filter_concat_partition:
  assumes "distinct ks" and T: "\<And>k' r. r \<in> set (T k') \<Longrightarrow> g r = k'"
  shows "filter (\<lambda>r. g r = k) (concat (map T ks)) = (if k \<in> set ks then T k else [])"
  using assms(1)
proof (induction ks)
  case Nil
  then show ?case by simp
next
  case (Cons k' ks)
  have same: "filter (\<lambda>r. g r = k) (T k) = T k"
    by (rule filter_True) (simp add: T)
  have other: "filter (\<lambda>r. g r = k) (T k') = []" if "k' \<noteq> k"
    unfolding filter_empty_conv using T that by blast
  from Cons.prems have d: "k' \<notin> set ks" "distinct ks" by simp_all
  show ?case
  proof (cases "k' = k")
    case True
    with d have "k \<notin> set ks" by simp
    with Cons.IH [OF d(2)] have "filter (\<lambda>r. g r = k) (concat (map T ks)) = []" by simp
    with True same show ?thesis by simp
  next
    case False
    with other Cons.IH [OF d(2)] show ?thesis by auto
  qed
qed

lemma top_per_group_partition:
  "filter (\<lambda>r. getcol part r = k) (top_per_group n part ord rs) =
     take n (sort_key (\<lambda>r. desc_key (getcol ord r)) (filter (\<lambda>r. getcol part r = k) rs))"
proof -
  let ?T = "\<lambda>k. take n (sort_key (\<lambda>r. desc_key (getcol ord r)) (filter (\<lambda>r. getcol part r = k) rs))"
  let ?ks = "remdups (map (getcol part) rs)"
  have T: "getcol part r = k'" if "r \<in> set (?T k')" for k' r
    using in_sorted_partition [OF that] by simp
  have "filter (\<lambda>r. getcol part r = k) (concat (map ?T ?ks)) = (if k \<in> set ?ks then ?T k else [])"
    by (rule filter_concat_partition [of ?ks ?T "getcol part" k, OF distinct_remdups T])
  moreover have "?T k = []" if "k \<notin> set ?ks"
  proof -
    from that have "filter (\<lambda>r. getcol part r = k) rs = []"
      unfolding filter_empty_conv by auto
    then show ?thesis by simp
  qed
  ultimately show ?thesis
    unfolding top_per_group_def by (cases "k \<in> set ?ks") simp_all
qed

lemma set_top_per_group: "set (top_per_group n part ord rs) \<subseteq> set rs"
proof
  fix r assume "r \<in> set (top_per_group n part ord rs)"
  then obtain k where
    "r \<in> set (take n (sort_key (\<lambda>r. desc_key (getcol ord r)) (filter (\<lambda>r. getcol part r = k) rs)))"
    unfolding top_per_group_def by auto
  then show "r \<in> set rs" using in_sorted_partition by blast
qed

lemma top_per_group_length:
  "length (filter (\<lambda>r. getcol part r = k) (top_per_group n part ord rs)) \<le> n"
  by (simp add: top_per_group_partition)

lemma top_per_group_dominates:
  assumes "r \<in> set rs" "getcol part r = k" "r \<notin> set (top_per_group n part ord rs)"
  shows "length (filter (\<lambda>r. getcol part r = k) (top_per_group n part ord rs)) = n"
    and "\<forall>t \<in> set (top_per_group n part ord rs). getcol part t = k \<longrightarrow>
           desc_key (getcol ord t) \<le> desc_key (getcol ord r)"
proof -
  let ?K = "\<lambda>r. desc_key (getcol ord r)"
  let ?S = "sort_key ?K (filter (\<lambda>r. getcol part r = k) rs)"
  have T: "filter (\<lambda>r. getcol part r = k) (top_per_group n part ord rs) = take n ?S"
    by (rule top_per_group_partition)
  have rS: "r \<in> set ?S" using assms(1,2) by simp
  have TS: "set (take n ?S) = {x \<in> set (top_per_group n part ord rs). getcol part x = k}"
    unfolding T [symmetric] by simp
  have "r \<notin> set (take n ?S)"
    unfolding TS using assms(3) by simp
  with rS have rD: "r \<in> set (drop n ?S)"
    by (metis Un_iff append_take_drop_id set_append)
  then have "drop n ?S \<noteq> []" by auto
  then have len: "n < length ?S" by simp
  then show "length (filter (\<lambda>r. getcol part r = k) (top_per_group n part ord rs)) = n"
    unfolding T by simp
  have "sorted (map ?K (take n ?S @ drop n ?S))"
    by (simp only: append_take_drop_id sorted_sort_key)
  then have "\<forall>x \<in> set (map ?K (take n ?S)). \<forall>y \<in> set (map ?K (drop n ?S)). x \<le> y"
    by (simp only: map_append sorted_append) blast
  then have "\<forall>x \<in> set (take n ?S). \<forall>y \<in> set (drop n ?S). ?K x \<le> ?K y"
    by (simp only: set_map) blast
  with rD have "\<forall>x \<in> set (take n ?S). ?K x \<le> ?K r" by blast
  moreover have "t \<in> set (take n ?S)" if "t \<in> set (top_per_group n part ord rs)" "getcol part t = k" for t
    unfolding TS using that by simp
  ultimately show "\<forall>t \<in> set (top_per_group n part ord rs). getcol part t = k \<longrightarrow> ?K t \<le> ?K r"
    by blast
qed

lemma top_per_group_covers:
  assumes "r \<in> set rs" "0 < n"
  shows "filter (\<lambda>t. getcol part t = getcol part r) (top_per_group n part ord rs) \<noteq> []"
proof -
  have "r \<in> set (sort_key (\<lambda>r. desc_key (getcol ord r)) (filter (\<lambda>t. getcol part t = getcol part r) rs))"
    using assms(1) by simp
  then have "sort_key (\<lambda>r. desc_key (getcol ord r)) (filter (\<lambda>t. getcol part t = getcol part r) rs) \<noteq> []"
    by (metis empty_iff list.set(1))
  then show ?thesis
    unfolding top_per_group_partition using assms(2) by simp
qed

lemma top_one_keys:
  "map (getcol part) (top_per_group 1 part ord rs) = remdups (map (getcol part) rs)"
proof -
  let ?S = "\<lambda>k. sort_key (\<lambda>r. desc_key (getcol ord r)) (filter (\<lambda>r. getcol part r = k) rs)"
  have "map (getcol part) (take 1 (?S k)) = [k]" if "k \<in> set (remdups (map (getcol part) rs))" for k
  proof -
    from that have "filter (\<lambda>r. getcol part r = k) rs \<noteq> []"
      by (auto simp: filter_empty_conv)
    then have ne: "?S k \<noteq> []"
      by (metis length_0_conv length_sort)
    then obtain x xs where x: "?S k = x # xs" by (cases "?S k") auto
    then have "x \<in> set (?S k)" by simp
    then have "getcol part x = k" by simp
    with x show ?thesis by simp
  qed
  then have eq: "map (\<lambda>k. map (getcol part) (take 1 (?S k))) (remdups (map (getcol part) rs))
      = map (\<lambda>k. [k]) (remdups (map (getcol part) rs))"
    by (intro map_cong refl) simp
  have "map (getcol part) (top_per_group 1 part ord rs)
      = concat (map (\<lambda>k. map (getcol part) (take 1 (?S k))) (remdups (map (getcol part) rs)))"
    by (simp add: top_per_group_def map_concat comp_def)
  also have "\<dots> = concat (map (\<lambda>k. [k]) (remdups (map (getcol part) rs)))"
    by (simp only: eq)
  also have "\<dots> = remdups (map (getcol part) rs)"
    by simp
  finally show ?thesis .
qed

section \<open>Grouping on several columns\<close>

lemma zip_map_same: "zip ks (map h ks) = map (\<lambda>c. (c, h c)) ks"
  by (induction ks) auto

lemma set_rows_group_by_agg:
  "set (rows (group_by_agg ks [(n, a)] df)) =
     (\<lambda>f. map (\<lambda>c. (c, getcol c f)) ks @
            [(n, eval_agg a (filter (\<lambda>r. key_of ks r = key_of ks f) (rows df)))]) ` set (rows df)"
proof -
  have "zip ks (key_of ks f) = map (\<lambda>c. (c, getcol c f)) ks" for f
    unfolding key_of_def by (rule zip_map_same)
  then show ?thesis
    by (simp add: group_by_agg_def image_image del: eval_agg.simps)
qed

lemma select_rows_shape:
  "\<forall>r \<in> set (rows (select cs d)). r = map (\<lambda>c. (c, getcol c r)) cs"
proof
  fix r assume "r \<in> set (rows (select cs d))"
  then obtain f where r: "r = map (\<lambda>c. (c, getcol c f)) cs" by auto
  have "map (\<lambda>c. (c, getcol c (map (\<lambda>c. (c, getcol c f)) cs))) cs = map (\<lambda>c. (c, getcol c f)) cs"
    by (rule map_cong [OF refl]) (simp add: getcol_select_row)
  with r show "r = map (\<lambda>c. (c, getcol c r)) cs" by simp
qed

lemma desc_key_Num_le: "desc_key (Num x) \<le> desc_key (Num y) \<longleftrightarrow> y \<le> x"
  by (simp add: less_eq_prod_def)

section \<open>Q6: the three most used aircraft models of an airline\<close>

lemma q6_group_count:
  "a \<noteq> Null \<Longrightarrow> getcol ''airline_name'' f = a \<Longrightarrow> getcol ''aircraft_name'' f = m \<Longrightarrow>
   eval_agg (Count ''airline_name'')
     (filter (\<lambda>r. key_of [''airline_name'', ''aircraft_name''] r = key_of [''airline_name'', ''aircraft_name''] f)
        (rows df)) = Num (real (flight_count a m df))"
proof -
  assume a: "a \<noteq> Null" "getcol ''airline_name'' f = a" "getcol ''aircraft_name'' f = m"
  let ?P = "\<lambda>r. getcol ''airline_name'' r = a \<and> getcol ''aircraft_name'' r = m"
  have k: "(key_of [''airline_name'', ''aircraft_name''] r = key_of [''airline_name'', ''aircraft_name''] f) = ?P r" for r
    using a by (simp add: key_of_def)
  have "filter (\<lambda>r. getcol ''airline_name'' r \<noteq> Null) (filter ?P (rows df)) = filter ?P (rows df)"
    by (rule filter_True) (use a in auto)
  then show ?thesis
    unfolding k flight_count_def by (simp del: filter_filter)
qed

lemma set_q6_candidates:
  "set (rows (select [''airline_name'', ''aircraft_name'', ''number_of_flights''] (q6_counts df))) =
     {q6_row a m df | a m. a \<noteq> Null \<and> m \<noteq> Null \<and>
        (\<exists>f \<in> set (rows df). getcol ''airline_name'' f = a \<and> getcol ''aircraft_name'' f = m)}"
  (is "?L = ?R")
proof -
  let ?ks = "[''airline_name'', ''aircraft_name'']"
  let ?g = "\<lambda>f. map (\<lambda>c. (c, getcol c f)) ?ks @
            [(''count(airline_name)'', eval_agg (Count ''airline_name'') (filter (\<lambda>r. key_of ?ks r = key_of ?ks f) (rows df)))]"
  let ?h = "\<lambda>r. map (\<lambda>c. (c, getcol c (map (\<lambda>kv. (rename ''count(airline_name)'' ''number_of_flights'' (fst kv), snd kv)) r)))
                [''airline_name'', ''aircraft_name'', ''number_of_flights'']"
  let ?G = "rows (group_by_agg ?ks [(''count(airline_name)'', Count ''airline_name'')] df)"
  have rowsL: "rows (select [''airline_name'', ''aircraft_name'', ''number_of_flights''] (q6_counts df)) =
      map ?h (filter (\<lambda>r. getcol ''aircraft_name'' r \<noteq> Null) (filter (\<lambda>r. getcol ''airline_name'' r \<noteq> Null)
        (sort_key (\<lambda>r. desc_key (getcol ''count(airline_name)'' r)) ?G)))"
    by (simp add: q6_counts_def Let_def isNotNull_def comp_def)
  have "?L = ?h ` {r \<in> {r \<in> set ?G. getcol ''airline_name'' r \<noteq> Null}. getcol ''aircraft_name'' r \<noteq> Null}"
    unfolding rowsL by (simp only: set_map set_filter set_sort)
  also have "{r \<in> {r \<in> set ?G. getcol ''airline_name'' r \<noteq> Null}. getcol ''aircraft_name'' r \<noteq> Null}
      = {r \<in> ?g ` set (rows df). getcol ''airline_name'' r \<noteq> Null \<and> getcol ''aircraft_name'' r \<noteq> Null}"
    unfolding set_rows_group_by_agg by blast
  finally have L: "?L = ?h ` {r \<in> ?g ` set (rows df). getcol ''airline_name'' r \<noteq> Null \<and> getcol ''aircraft_name'' r \<noteq> Null}" .
  have row: "?h (?g f) = q6_row (getcol ''airline_name'' f) (getcol ''aircraft_name'' f) df"
    if "getcol ''airline_name'' f \<noteq> Null" for f
    using q6_group_count [OF that refl refl, of df]
    by (simp add: q6_row_def getcol_def rename_def del: eval_agg.simps)
  have gc: "getcol ''airline_name'' (?g f) = getcol ''airline_name'' f"
    "getcol ''aircraft_name'' (?g f) = getcol ''aircraft_name'' f" for f
    by (simp_all add: getcol_def)
  show ?thesis
  proof (rule set_eqI, rule iffI)
    fix x assume "x \<in> ?L"
    then obtain f where f: "f \<in> set (rows df)" "getcol ''airline_name'' (?g f) \<noteq> Null"
      "getcol ''aircraft_name'' (?g f) \<noteq> Null" "x = ?h (?g f)"
      unfolding L by blast
    have A: "getcol ''airline_name'' f \<noteq> Null" using f(2) unfolding gc .
    have M: "getcol ''aircraft_name'' f \<noteq> Null" using f(3) unfolding gc .
    have "x = q6_row (getcol ''airline_name'' f) (getcol ''aircraft_name'' f) df"
      unfolding f(4) by (rule row [OF A])
    with A M f(1) show "x \<in> ?R" by blast
  next
    fix x assume "x \<in> ?R"
    then obtain a m f where f: "x = q6_row a m df" "a \<noteq> Null" "m \<noteq> Null" "f \<in> set (rows df)"
      "getcol ''airline_name'' f = a" "getcol ''aircraft_name'' f = m" by blast
    have A: "getcol ''airline_name'' f \<noteq> Null" using f(2,5) by blast
    have M: "getcol ''aircraft_name'' f \<noteq> Null" using f(3,6) by blast
    have "?h (?g f) = q6_row (getcol ''airline_name'' f) (getcol ''aircraft_name'' f) df"
      by (rule row [OF A])
    then have x: "x = ?h (?g f)" unfolding f(1) f(5) f(6) by (rule sym)
    have "getcol ''airline_name'' (?g f) \<noteq> Null" "getcol ''aircraft_name'' (?g f) \<noteq> Null"
      unfolding gc using A M by blast+
    with f(4) have "?g f \<in> {r \<in> ?g ` set (rows df). getcol ''airline_name'' r \<noteq> Null \<and> getcol ''aircraft_name'' r \<noteq> Null}"
      by blast
    with x show "x \<in> ?L" unfolding L by blast
  qed
qed

lemma rows_df_q6:
  "rows (df_q6 df) =
     top_per_group 3 ''airline_name'' ''number_of_flights''
       (rows (select [''airline_name'', ''aircraft_name'', ''number_of_flights''] (q6_counts df)))"
proof -
  have "rows (df_q6 df) =
     rows (select [''airline_name'', ''aircraft_name'', ''number_of_flights'']
       (filter_df (\<lambda>r. sql_le (getcol ''row_number'' r) (Num (real 3)))
         (row_number_over ''airline_name'' ''number_of_flights''
           (select [''airline_name'', ''aircraft_name'', ''number_of_flights''] (q6_counts df)))))"
    by (simp add: df_q6_def)
  also have "\<dots> = top_per_group 3 ''airline_name'' ''number_of_flights''
       (rows (select [''airline_name'', ''aircraft_name'', ''number_of_flights''] (q6_counts df)))"
    by (rule ranked_rows(1)) (simp, rule select_rows_shape)
  finally show ?thesis .
qed

lemma distinct_by_partition:
  "(\<And>k. distinct (filter (\<lambda>r. g r = k) xs)) \<Longrightarrow> distinct xs"
proof (induction xs)
  case Nil
  then show ?case by simp
next
  case (Cons x xs)
  have tl: "distinct (filter (\<lambda>r. g r = k) xs)" for k
    using Cons.prems [of k] by (cases "g x = k") simp_all
  have "x \<notin> set (filter (\<lambda>r. g r = g x) xs)"
    using Cons.prems [of "g x"] by simp
  then have "x \<notin> set xs" by simp
  with Cons.IH [OF tl] show ?case by simp
qed

lemma distinct_top_per_group:
  assumes "distinct rs"
  shows "distinct (top_per_group n part ord rs)"
proof (rule distinct_by_partition [where g = "getcol part"])
  fix k
  show "distinct (filter (\<lambda>r. getcol part r = k) (top_per_group n part ord rs))"
    unfolding top_per_group_partition using assms by simp
qed

lemma distinct_map_sort_filter:
  assumes "distinct (map e xs)"
  shows "distinct (map e (filter P (filter Q (sort_key K xs))))"
proof -
  from assms have "distinct xs" "inj_on e (set xs)" by (simp_all add: distinct_map)
  then have "distinct (map e (sort_key K xs))" by (simp add: distinct_map)
  then show ?thesis by (intro distinct_map_filter)
qed

lemma group_rows_keys:
  "map (key_of ks) (rows (group_by_agg ks [(n, a)] df)) = remdups (map (key_of ks) (rows df))"
proof -
  have "key_of ks (zip ks k @ [x]) = k" if "k \<in> set (map (key_of ks) (rows df))" for k x
  proof -
    from that obtain f where k: "k = map (\<lambda>c. getcol c f) ks" by (auto simp: key_of_def)
    have "zip ks k = map (\<lambda>c. (c, getcol c f)) ks" unfolding k by (rule zip_map_same)
    then have "key_of ks (zip ks k @ [x]) = map (\<lambda>c. getcol c (map (\<lambda>c. (c, getcol c f)) ks @ [x])) ks"
      by (simp add: key_of_def)
    also have "\<dots> = map (\<lambda>c. getcol c f) ks"
      by (rule map_cong [OF refl]) (simp add: getcol_append_left comp_def getcol_select_row)
    finally show ?thesis unfolding k .
  qed
  then have "map (\<lambda>k. key_of ks (zip ks k @ [(n, eval_agg a (filter (\<lambda>r. key_of ks r = k) (rows df)))]))
      (remdups (map (key_of ks) (rows df))) = map (\<lambda>k. k) (remdups (map (key_of ks) (rows df)))"
    by (intro map_cong refl) simp
  then show ?thesis
    by (simp add: group_by_agg_def comp_def del: eval_agg.simps)
qed

lemma distinct_q6_candidates:
  "distinct (rows (select [''airline_name'', ''aircraft_name'', ''number_of_flights''] (q6_counts df)))"
proof -
  let ?ks = "[''airline_name'', ''aircraft_name'']"
  let ?G = "rows (group_by_agg ?ks [(''count(airline_name)'', Count ''airline_name'')] df)"
  let ?h = "\<lambda>r. map (\<lambda>c. (c, getcol c (map (\<lambda>kv. (rename ''count(airline_name)'' ''number_of_flights'' (fst kv), snd kv)) r)))
                [''airline_name'', ''aircraft_name'', ''number_of_flights'']"
  let ?X = "filter (\<lambda>r. getcol ''aircraft_name'' r \<noteq> Null) (filter (\<lambda>r. getcol ''airline_name'' r \<noteq> Null)
        (sort_key (\<lambda>r. desc_key (getcol ''count(airline_name)'' r)) ?G))"
  have rowsL: "rows (select [''airline_name'', ''aircraft_name'', ''number_of_flights''] (q6_counts df)) = map ?h ?X"
    by (simp add: q6_counts_def Let_def isNotNull_def comp_def)
  have "distinct (map (key_of ?ks) ?G)" unfolding group_rows_keys by simp
  then have dX: "distinct (map (key_of ?ks) ?X)" by (rule distinct_map_sort_filter)
  have G: "\<exists>a m c. r = [(''airline_name'', a), (''aircraft_name'', m), (''count(airline_name)'', c)]"
    if "r \<in> set ?G" for r
    using that unfolding set_rows_group_by_agg by auto
  have "key_of ?ks (?h r) = key_of ?ks r" if "r \<in> set ?X" for r
  proof -
    from that have "r \<in> set ?G" by simp
    from G [OF this] obtain a m c where
      "r = [(''airline_name'', a), (''aircraft_name'', m), (''count(airline_name)'', c)]" by blast
    then show ?thesis by (simp add: key_of_def getcol_def rename_def)
  qed
  then have e: "map (key_of ?ks) (map ?h ?X) = map (key_of ?ks) ?X"
    unfolding map_map comp_def by (intro map_cong refl)
  have "distinct (map (key_of ?ks) (map ?h ?X))" unfolding e by (rule dX)
  then have "distinct (map ?h ?X)" by (simp only: distinct_map [of "key_of ?ks"])
  then show ?thesis unfolding rowsL .
qed

text \<open>
  C7. Every row of Q6 is the row of an airline and an aircraft model, both not null,
  with the number of flights of the enriched set that have that airline and that
  model. An airline has at most three rows. A pair of an airline and a model with at
  least one flight that has no row is outnumbered: the airline then has three rows, and
  each of them counts at least as many flights as the pair.
\<close>

theorem q6_top_three:
  "(\<forall>r \<in> set (rows (df_q6 df)). \<exists>a m. a \<noteq> Null \<and> m \<noteq> Null \<and> 0 < flight_count a m df \<and> r = q6_row a m df)
   \<and> distinct (rows (df_q6 df))
   \<and> (\<forall>a. length (filter (\<lambda>r. getcol ''airline_name'' r = a) (rows (df_q6 df))) \<le> 3)
   \<and> (\<forall>a m. a \<noteq> Null \<and> m \<noteq> Null \<and> 0 < flight_count a m df \<and> q6_row a m df \<notin> set (rows (df_q6 df)) \<longrightarrow>
         length (filter (\<lambda>r. getcol ''airline_name'' r = a) (rows (df_q6 df))) = 3 \<and>
         (\<forall>m'. q6_row a m' df \<in> set (rows (df_q6 df)) \<longrightarrow> flight_count a m df \<le> flight_count a m' df))"
proof -
  let ?C = "rows (select [''airline_name'', ''aircraft_name'', ''number_of_flights''] (q6_counts df))"
  let ?T = "rows (df_q6 df)"
  have T: "?T = top_per_group 3 ''airline_name'' ''number_of_flights'' ?C" by (rule rows_df_q6)
  have pos: "0 < flight_count a m df \<longleftrightarrow>
      (\<exists>f \<in> set (rows df). getcol ''airline_name'' f = a \<and> getcol ''aircraft_name'' f = m)" for a m
    by (auto simp: flight_count_def filter_empty_conv)
  have C: "set ?C = {q6_row a m df | a m. a \<noteq> Null \<and> m \<noteq> Null \<and> 0 < flight_count a m df}"
    unfolding set_q6_candidates pos ..
  have one: "\<forall>r \<in> set ?T. \<exists>a m. a \<noteq> Null \<and> m \<noteq> Null \<and> 0 < flight_count a m df \<and> r = q6_row a m df"
  proof
    fix r assume "r \<in> set ?T"
    then have "r \<in> set ?C" unfolding T using set_top_per_group by blast
    then show "\<exists>a m. a \<noteq> Null \<and> m \<noteq> Null \<and> 0 < flight_count a m df \<and> r = q6_row a m df"
      unfolding C by blast
  qed
  have two: "\<forall>a. length (filter (\<lambda>r. getcol ''airline_name'' r = a) ?T) \<le> 3"
    unfolding T by (simp add: top_per_group_length)
  have three: "length (filter (\<lambda>r. getcol ''airline_name'' r = a) ?T) = 3 \<and>
         (\<forall>m'. q6_row a m' df \<in> set ?T \<longrightarrow> flight_count a m df \<le> flight_count a m' df)"
    if h: "a \<noteq> Null" "m \<noteq> Null" "0 < flight_count a m df" "q6_row a m df \<notin> set ?T" for a m
  proof -
    have inC: "q6_row a m df \<in> set ?C" unfolding C using h by blast
    have an: "getcol ''airline_name'' (q6_row a m' df) = a" for m'
      by (simp add: q6_row_def getcol_def)
    have nf: "getcol ''number_of_flights'' (q6_row a m' df) = Num (real (flight_count a m' df))" for m'
      by (simp add: q6_row_def getcol_def)
    have notT: "q6_row a m df \<notin> set (top_per_group 3 ''airline_name'' ''number_of_flights'' ?C)"
      using h(4) unfolding T .
    note d = top_per_group_dominates [OF inC an notT]
    have "flight_count a m df \<le> flight_count a m' df" if "q6_row a m' df \<in> set ?T" for m'
    proof -
      from that have "q6_row a m' df \<in> set (top_per_group 3 ''airline_name'' ''number_of_flights'' ?C)"
        unfolding T .
      with d(2) an have "desc_key (getcol ''number_of_flights'' (q6_row a m' df))
          \<le> desc_key (getcol ''number_of_flights'' (q6_row a m df))" by blast
      then show ?thesis unfolding nf desc_key_Num_le by simp
    qed
    with d(1) show ?thesis unfolding T by blast
  qed
  have four: "distinct ?T"
    unfolding T by (rule distinct_top_per_group [OF distinct_q6_candidates])
  from one two three four show ?thesis by blast
qed

theorem q6_top_three_witness:
  "rows (df_q6 q6_fixture) =
     [[(''airline_name'', Str ''Air France''), (''aircraft_name'', Str ''A320''), (''number_of_flights'', Num 3)],
      [(''airline_name'', Str ''Air France''), (''aircraft_name'', Str ''B777''), (''number_of_flights'', Num 2)],
      [(''airline_name'', Str ''Air France''), (''aircraft_name'', Str ''A350''), (''number_of_flights'', Num 1)]]
   \<and> 0 < flight_count (Str ''Air France'') (Str ''A380'') q6_fixture
   \<and> q6_row (Str ''Air France'') (Str ''A380'') q6_fixture \<notin> set (rows (df_q6 q6_fixture))
   \<and> length (filter (\<lambda>r. getcol ''airline_name'' r = Str ''Air France'') (rows (df_q6 q6_fixture))) = 3
   \<and> flight_count (Str ''Air France'') (Str ''A380'') q6_fixture
        \<le> flight_count (Str ''Air France'') (Str ''A320'') q6_fixture"
proof -
  have R: "rows (df_q6 q6_fixture) =
     [[(''airline_name'', Str ''Air France''), (''aircraft_name'', Str ''A320''), (''number_of_flights'', Num 3)],
      [(''airline_name'', Str ''Air France''), (''aircraft_name'', Str ''B777''), (''number_of_flights'', Num 2)],
      [(''airline_name'', Str ''Air France''), (''aircraft_name'', Str ''A350''), (''number_of_flights'', Num 1)]]"
    by code_simp
  have c380: "flight_count (Str ''Air France'') (Str ''A380'') q6_fixture = 1" by code_simp
  have c320: "flight_count (Str ''Air France'') (Str ''A320'') q6_fixture = 3" by code_simp
  have pos: "0 < flight_count (Str ''Air France'') (Str ''A380'') q6_fixture" using c380 by simp
  have out: "q6_row (Str ''Air France'') (Str ''A380'') q6_fixture \<notin> set (rows (df_q6 q6_fixture))"
    unfolding R by (simp add: q6_row_def)
  have inn: "q6_row (Str ''Air France'') (Str ''A320'') q6_fixture \<in> set (rows (df_q6 q6_fixture))"
    unfolding R by (simp add: q6_row_def c320)
  have nn: "Str ''Air France'' \<noteq> Null" "Str ''A380'' \<noteq> Null" by simp_all
  from q6_top_three [of q6_fixture] nn pos out inn
  have "length (filter (\<lambda>r. getcol ''airline_name'' r = Str ''Air France'') (rows (df_q6 q6_fixture))) = 3
     \<and> flight_count (Str ''Air France'') (Str ''A380'') q6_fixture
        \<le> flight_count (Str ''Air France'') (Str ''A320'') q6_fixture"
    by blast
  with R pos out show ?thesis by blast
qed

section \<open>Q2: the airline with the most regional flights of a continent\<close>

lemma q2_group_count:
  assumes "getcol ''origin_airport_continent'' f = k" "getcol ''destination_airport_continent'' f = k"
    "getcol ''airline_name'' f = a"
  shows "eval_agg (Count ''airline_name'')
     (filter (\<lambda>r. key_of [''origin_airport_continent'', ''destination_airport_continent'', ''airline_name''] r =
                   key_of [''origin_airport_continent'', ''destination_airport_continent'', ''airline_name''] f)
        (rows df)) = Num (real (regional_count k a df))"
proof -
  let ?P = "\<lambda>r. getcol ''origin_airport_continent'' r = k \<and> getcol ''destination_airport_continent'' r = k \<and>
                getcol ''airline_name'' r = a"
  have k: "(key_of [''origin_airport_continent'', ''destination_airport_continent'', ''airline_name''] r =
          key_of [''origin_airport_continent'', ''destination_airport_continent'', ''airline_name''] f) = ?P r" for r
    using assms by (simp add: key_of_def)
  have "filter (\<lambda>r. getcol ''airline_name'' r \<noteq> Null) (filter ?P (rows df)) =
      (if a = Null then [] else filter ?P (rows df))"
  proof (cases "a = Null")
    case True
    then show ?thesis by (auto simp: filter_empty_conv)
  next
    case False
    have "filter (\<lambda>r. getcol ''airline_name'' r \<noteq> Null) (filter ?P (rows df)) = filter ?P (rows df)"
      by (rule filter_True) (use False in auto)
    with False show ?thesis by (simp only: if_False)
  qed
  then show ?thesis
    unfolding k regional_count_def regional_flights_def by (simp del: filter_filter)
qed

lemma set_q2_candidates:
  "set (rows (select [''continent'', ''airline_name'', ''number_of_flights''] (q2_regional df))) =
     {q2_row k a df | k a. k \<noteq> Null \<and>
        (\<exists>f \<in> set (rows df). getcol ''origin_airport_continent'' f = k \<and>
           getcol ''destination_airport_continent'' f = k \<and> getcol ''airline_name'' f = a)}"
  (is "?L = ?R")
proof -
  let ?ks = "[''origin_airport_continent'', ''destination_airport_continent'', ''airline_name'']"
  let ?g = "\<lambda>f. map (\<lambda>c. (c, getcol c f)) ?ks @
            [(''count(airline_name)'', eval_agg (Count ''airline_name'') (filter (\<lambda>r. key_of ?ks r = key_of ?ks f) (rows df)))]"
  let ?h = "\<lambda>r. map (\<lambda>c. (c, getcol c
                 (map (\<lambda>kv. (rename ''destination_airport_continent'' ''continent'' (fst kv), snd kv))
                   (filter (\<lambda>kv. fst kv \<notin> set [''origin_airport_continent''])
                     (map (\<lambda>kv. (rename ''count(airline_name)'' ''number_of_flights'' (fst kv), snd kv)) r)))))
                [''continent'', ''airline_name'', ''number_of_flights'']"
  let ?G = "rows (group_by_agg ?ks [(''count(airline_name)'', Count ''airline_name'')] df)"
  let ?reg = "\<lambda>r. sql_eq (getcol ''origin_airport_continent'' r) (getcol ''destination_airport_continent'' r) = Some True"
  have rowsL: "rows (select [''continent'', ''airline_name'', ''number_of_flights''] (q2_regional df)) =
      map ?h (filter ?reg (sort_key (\<lambda>r. desc_key (getcol ''count(airline_name)'' r)) ?G))"
    by (simp add: q2_regional_def Let_def comp_def)
  have "?L = ?h ` {r \<in> set ?G. ?reg r}"
    unfolding rowsL by (simp only: set_map set_filter set_sort)
  also have "{r \<in> set ?G. ?reg r} = {r \<in> ?g ` set (rows df). ?reg r}"
    unfolding set_rows_group_by_agg ..
  finally have L: "?L = ?h ` {r \<in> ?g ` set (rows df). ?reg r}" .
  have row: "?h (?g f) = q2_row (getcol ''destination_airport_continent'' f) (getcol ''airline_name'' f) df"
    if "getcol ''origin_airport_continent'' f = getcol ''destination_airport_continent'' f" for f
    using q2_group_count [OF that refl refl, of df]
    by (simp add: q2_row_def getcol_def rename_def del: eval_agg.simps)
  have reg: "?reg (?g f) \<longleftrightarrow> getcol ''destination_airport_continent'' f \<noteq> Null \<and>
      getcol ''origin_airport_continent'' f = getcol ''destination_airport_continent'' f" for f
    by (auto simp: getcol_def sql_eq_def)
  show ?thesis
  proof (rule set_eqI, rule iffI)
    fix x assume "x \<in> ?L"
    then obtain f where f: "f \<in> set (rows df)" "?reg (?g f)" "x = ?h (?g f)"
      unfolding L by blast
    from f(2) have K: "getcol ''destination_airport_continent'' f \<noteq> Null"
      and E: "getcol ''origin_airport_continent'' f = getcol ''destination_airport_continent'' f"
      unfolding reg by blast+
    have "x = q2_row (getcol ''destination_airport_continent'' f) (getcol ''airline_name'' f) df"
      unfolding f(3) by (rule row [OF E])
    with K E f(1) show "x \<in> ?R" by blast
  next
    fix x assume "x \<in> ?R"
    then obtain k a f where f: "x = q2_row k a df" "k \<noteq> Null" "f \<in> set (rows df)"
      "getcol ''origin_airport_continent'' f = k" "getcol ''destination_airport_continent'' f = k"
      "getcol ''airline_name'' f = a" by blast
    have E: "getcol ''origin_airport_continent'' f = getcol ''destination_airport_continent'' f"
      using f(4,5) by simp
    have "?h (?g f) = q2_row (getcol ''destination_airport_continent'' f) (getcol ''airline_name'' f) df"
      by (rule row [OF E])
    then have x: "x = ?h (?g f)" unfolding f(1) f(5) f(6) by (rule sym)
    have "?reg (?g f)" unfolding reg using f(2,5) E by blast
    with f(3) have "?g f \<in> {r \<in> ?g ` set (rows df). ?reg r}" by blast
    with x show "x \<in> ?L" unfolding L by blast
  qed
qed

lemma rows_q2_ranked:
  "rows (q2_ranked (q2_regional df)) =
     top_per_group 1 ''continent'' ''number_of_flights''
       (rows (select [''continent'', ''airline_name'', ''number_of_flights''] (q2_regional df)))"
  unfolding q2_ranked_def by (rule ranked_rows(2)) (simp, rule select_rows_shape)

lemma rows_df_q2:
  "rows (df_q2 df) =
     map (\<lambda>r. [(''airline_name'', getcol ''airline_name'' r),
                (''number_of_flights'', getcol ''number_of_flights'' r),
                (''continent_name'', continent_name_of (getcol ''continent'' r))])
       (rows (q2_ranked (q2_regional df)))"
proof -
  let ?R = "rows (q2_ranked (q2_regional df))"
  have shape: "\<forall>r \<in> set ?R. r = map (\<lambda>c. (c, getcol c r)) [''continent'', ''airline_name'', ''number_of_flights'']"
    unfolding q2_ranked_def by (rule select_rows_shape)
  have "rows (df_q2 df) =
      map (\<lambda>l. filter (\<lambda>kv. fst kv \<notin> set [''continent''])
                 (l @ [(''continent_name'', continent_name_of (getcol ''continent'' l)),
                       (''continent'', if continent_name_of (getcol ''continent'' l) = Null then Null
                                       else getcol ''continent'' l)])) ?R"
    unfolding df_q2_def Let_def rows_drop_cols rows_join join_continent_rows
    by (simp add: comp_def)
  also have "\<dots> = map (\<lambda>r. [(''airline_name'', getcol ''airline_name'' r),
                (''number_of_flights'', getcol ''number_of_flights'' r),
                (''continent_name'', continent_name_of (getcol ''continent'' r))]) ?R"
  proof (rule map_cong [OF refl])
    fix l assume "l \<in> set ?R"
    with shape have l: "l = [(''continent'', getcol ''continent'' l), (''airline_name'', getcol ''airline_name'' l),
        (''number_of_flights'', getcol ''number_of_flights'' l)]" by auto
    show "filter (\<lambda>kv. fst kv \<notin> set [''continent''])
                 (l @ [(''continent_name'', continent_name_of (getcol ''continent'' l)),
                       (''continent'', if continent_name_of (getcol ''continent'' l) = Null then Null
                                       else getcol ''continent'' l)]) =
          [(''airline_name'', getcol ''airline_name'' l),
                (''number_of_flights'', getcol ''number_of_flights'' l),
                (''continent_name'', continent_name_of (getcol ''continent'' l))]"
      by (subst (1) l) simp
  qed
  finally show ?thesis .
qed

lemma distinct_map_eq:
  "distinct (map f xs) \<Longrightarrow> x \<in> set xs \<Longrightarrow> y \<in> set xs \<Longrightarrow> f x = f y \<Longrightarrow> x = y"
  by (simp add: distinct_map inj_on_def)

text \<open>
  C6, as the code has it. The count of a group is the number of its flights that have
  an airline name, so the group of the flights without airline name counts 0. Q2 has
  exactly one row per continent that has a regional active flight; the row is that of a
  group of regional flights of the continent whose count is maximal for the continent,
  and it shows the airline name, the count and the display name of the continent code
  (null for a code the continent table does not have).
\<close>

theorem q2_top_regional_airline:
  "rows (df_q2 df) =
     map (\<lambda>r. [(''airline_name'', getcol ''airline_name'' r),
                (''number_of_flights'', getcol ''number_of_flights'' r),
                (''continent_name'', continent_name_of (getcol ''continent'' r))])
       (rows (q2_ranked (q2_regional df)))
   \<and> distinct (map (getcol ''continent'') (rows (q2_ranked (q2_regional df))))
   \<and> set (map (getcol ''continent'') (rows (q2_ranked (q2_regional df)))) =
       {k. k \<noteq> Null \<and> (\<exists>f \<in> set (rows df). getcol ''origin_airport_continent'' f = k \<and>
                                  getcol ''destination_airport_continent'' f = k)}
   \<and> (\<forall>r \<in> set (rows (q2_ranked (q2_regional df))). \<exists>k a.
         r = q2_row k a df \<and> k \<noteq> Null \<and> 0 < regional_flights k a df \<and>
         (\<forall>a'. regional_count k a' df \<le> regional_count k a df))
   \<and> (\<forall>k a. regional_count k a df = (if a = Null then 0 else regional_flights k a df))"
proof -
  let ?C = "rows (select [''continent'', ''airline_name'', ''number_of_flights''] (q2_regional df))"
  let ?T = "rows (q2_ranked (q2_regional df))"
  have T: "?T = top_per_group 1 ''continent'' ''number_of_flights'' ?C" by (rule rows_q2_ranked)
  have pos: "0 < regional_flights k a df \<longleftrightarrow>
      (\<exists>f \<in> set (rows df). getcol ''origin_airport_continent'' f = k \<and>
           getcol ''destination_airport_continent'' f = k \<and> getcol ''airline_name'' f = a)" for k a
    by (auto simp: regional_flights_def filter_empty_conv)
  have C: "set ?C = {q2_row k a df | k a. k \<noteq> Null \<and> 0 < regional_flights k a df}"
    unfolding set_q2_candidates pos ..
  have cont: "getcol ''continent'' (q2_row k a df) = k" for k a
    by (simp add: q2_row_def getcol_def)
  have nf: "getcol ''number_of_flights'' (q2_row k a df) = Num (real (regional_count k a df))" for k a
    by (simp add: q2_row_def getcol_def)
  have keys: "map (getcol ''continent'') ?T = remdups (map (getcol ''continent'') ?C)"
    unfolding T by (rule top_one_keys)
  have two: "distinct (map (getcol ''continent'') ?T)" unfolding keys by simp
  have "getcol ''continent'' ` set ?C = {k. k \<noteq> Null \<and> (\<exists>a. 0 < regional_flights k a df)}"
  proof (rule set_eqI, rule iffI)
    fix x assume "x \<in> getcol ''continent'' ` set ?C"
    then obtain k a where "x = getcol ''continent'' (q2_row k a df)" "k \<noteq> Null" "0 < regional_flights k a df"
      unfolding C by blast
    then show "x \<in> {k. k \<noteq> Null \<and> (\<exists>a. 0 < regional_flights k a df)}"
      unfolding cont by blast
  next
    fix x assume "x \<in> {k. k \<noteq> Null \<and> (\<exists>a. 0 < regional_flights k a df)}"
    then obtain a where "x \<noteq> Null" "0 < regional_flights x a df" by blast
    then have "q2_row x a df \<in> set ?C" unfolding C by blast
    then have "getcol ''continent'' (q2_row x a df) \<in> getcol ''continent'' ` set ?C" by (rule imageI)
    then show "x \<in> getcol ''continent'' ` set ?C" unfolding cont .
  qed
  also have "\<dots> = {k. k \<noteq> Null \<and> (\<exists>f \<in> set (rows df). getcol ''origin_airport_continent'' f = k \<and>
                                  getcol ''destination_airport_continent'' f = k)}"
    unfolding pos by blast
  finally have img: "getcol ''continent'' ` set ?C =
       {k. k \<noteq> Null \<and> (\<exists>f \<in> set (rows df). getcol ''origin_airport_continent'' f = k \<and>
                                  getcol ''destination_airport_continent'' f = k)}" .
  have three: "set (map (getcol ''continent'') ?T) =
       {k. k \<noteq> Null \<and> (\<exists>f \<in> set (rows df). getcol ''origin_airport_continent'' f = k \<and>
                                  getcol ''destination_airport_continent'' f = k)}"
    unfolding keys set_remdups set_map by (rule img)
  have four: "\<exists>k a. r = q2_row k a df \<and> k \<noteq> Null \<and> 0 < regional_flights k a df \<and>
         (\<forall>a'. regional_count k a' df \<le> regional_count k a df)" if r: "r \<in> set ?T" for r
  proof -
    from r have "r \<in> set ?C" unfolding T using set_top_per_group by blast
    then obtain k a where ka: "r = q2_row k a df" "k \<noteq> Null" "0 < regional_flights k a df"
      unfolding C by blast
    have "regional_count k a' df \<le> regional_count k a df" for a'
    proof (cases "0 < regional_flights k a' df")
      case False
      then show ?thesis by (simp add: regional_count_def)
    next
      case True
      with ka(2) have inC: "q2_row k a' df \<in> set ?C" unfolding C by blast
      show ?thesis
      proof (cases "q2_row k a' df \<in> set ?T")
        case True
        from distinct_map_eq [OF two True r] cont ka(1) have "q2_row k a' df = q2_row k a df" by simp
        then have "Num (real (regional_count k a' df)) = Num (real (regional_count k a df))"
          by (simp add: q2_row_def)
        then show ?thesis by simp
      next
        case False
        then have notT: "q2_row k a' df \<notin> set (top_per_group 1 ''continent'' ''number_of_flights'' ?C)"
          unfolding T .
        from r have rT: "r \<in> set (top_per_group 1 ''continent'' ''number_of_flights'' ?C)" unfolding T .
        from top_per_group_dominates(2) [OF inC cont notT] rT cont ka(1)
        have "desc_key (getcol ''number_of_flights'' (q2_row k a df))
            \<le> desc_key (getcol ''number_of_flights'' (q2_row k a' df))" by blast
        then show ?thesis unfolding nf desc_key_Num_le by simp
      qed
    qed
    with ka show ?thesis by blast
  qed
  have five: "\<forall>k a. regional_count k a df = (if a = Null then 0 else regional_flights k a df)"
    by (simp add: regional_count_def)
  from four have four': "\<forall>r \<in> set ?T. \<exists>k a.
         r = q2_row k a df \<and> k \<noteq> Null \<and> 0 < regional_flights k a df \<and>
         (\<forall>a'. regional_count k a' df \<le> regional_count k a df)" by blast
  show ?thesis
    by (intro conjI) (rule rows_df_q2, rule two, rule three, rule four', rule five)
qed

theorem q2_top_regional_airline_witness:
  "q2_row (Str ''AS'') (Str ''ANA'') q2_fixture \<in> set (rows (q2_ranked (q2_regional q2_fixture)))
   \<and> regional_count (Str ''AS'') (Str ''JAL'') q2_fixture \<le> regional_count (Str ''AS'') (Str ''ANA'') q2_fixture
   \<and> map (getcol ''continent'') (rows (q2_ranked (q2_regional q2_fixture))) = [Str ''AN'', Str ''AS'', Str ''EU'']
   \<and> rows (df_q2 q2_fixture) =
       map (\<lambda>r. [(''airline_name'', getcol ''airline_name'' r),
                  (''number_of_flights'', getcol ''number_of_flights'' r),
                  (''continent_name'', continent_name_of (getcol ''continent'' r))])
         (rows (q2_ranked (q2_regional q2_fixture)))"
proof -
  have R: "rows (q2_ranked (q2_regional q2_fixture)) =
      [[(''continent'', Str ''AN''), (''airline_name'', Str ''Polar Air''), (''number_of_flights'', Num 1)],
       [(''continent'', Str ''AS''), (''airline_name'', Str ''ANA''), (''number_of_flights'', Num 2)],
       [(''continent'', Str ''EU''), (''airline_name'', Null), (''number_of_flights'', Num 0)]]"
    by code_simp
  have c: "regional_count (Str ''AS'') (Str ''ANA'') q2_fixture = 2" by code_simp
  have inn: "q2_row (Str ''AS'') (Str ''ANA'') q2_fixture \<in> set (rows (q2_ranked (q2_regional q2_fixture)))"
    unfolding R by (simp add: q2_row_def c)
  note t = q2_top_regional_airline [of q2_fixture]
  note t1 = t [THEN conjunct1]
  note t4 = t [THEN conjunct2, THEN conjunct2, THEN conjunct2, THEN conjunct1]
  from bspec [OF t4 inn]
  obtain k a where ka: "q2_row (Str ''AS'') (Str ''ANA'') q2_fixture = q2_row k a q2_fixture"
    "\<forall>a'. regional_count k a' q2_fixture \<le> regional_count k a q2_fixture"
    by blast
  from ka(1) have "k = Str ''AS''" "a = Str ''ANA''" by (simp_all add: q2_row_def)
  with ka(2) have dom: "regional_count (Str ''AS'') (Str ''JAL'') q2_fixture
      \<le> regional_count (Str ''AS'') (Str ''ANA'') q2_fixture" by blast
  have keys: "map (getcol ''continent'') (rows (q2_ranked (q2_regional q2_fixture))) = [Str ''AN'', Str ''AS'', Str ''EU'']"
    unfolding R by (simp add: getcol_def)
  show ?thesis
    by (intro conjI) (rule inn, rule dom, rule keys, rule t1)
qed

text \<open>
  C6 as stated fails on the fixture: Europe has one regional active flight, and the row
  of Europe has a null airline and the count 0; the row of Antarctica has no display
  name.
\<close>

theorem q2_counterexample:
  "rows (df_q2 q2_fixture) =
     [[(''airline_name'', Str ''Polar Air''), (''number_of_flights'', Num 1), (''continent_name'', Null)],
      [(''airline_name'', Str ''ANA''), (''number_of_flights'', Num 2), (''continent_name'', Str ''Asia'')],
      [(''airline_name'', Null), (''number_of_flights'', Num 0), (''continent_name'', Str ''Europe'')]]
   \<and> regional_flights (Str ''EU'') Null q2_fixture = 1"
proof -
  have "rows (df_q2 q2_fixture) =
     [[(''airline_name'', Str ''Polar Air''), (''number_of_flights'', Num 1), (''continent_name'', Null)],
      [(''airline_name'', Str ''ANA''), (''number_of_flights'', Num 2), (''continent_name'', Str ''Asia'')],
      [(''airline_name'', Null), (''number_of_flights'', Num 0), (''continent_name'', Str ''Europe'')]]"
    by code_simp
  moreover have "regional_flights (Str ''EU'') Null q2_fixture = 1" by code_simp
  ultimately show ?thesis by simp
qed

section \<open>Enrichment: the left joins\<close>

lemma keeps_refl: "keeps X l l"
  by (simp add: keeps_def)

lemma keeps_trans: "keeps X l e \<Longrightarrow> keeps Y e e' \<Longrightarrow> keeps (X \<union> Y) l e'"
  unfolding keeps_def by (metis DiffD1 DiffD2 DiffI UnCI)

lemma keeps_absent: "c \<notin> set (map fst l) \<Longrightarrow> keeps (insert c X) l e \<Longrightarrow> keeps X l e"
  unfolding keeps_def by auto

lemma keeps_append: "keeps X l (l @ r)"
  unfolding keeps_def using getcol_append_left [of _ l r] by auto

lemma getcol_without: "c \<noteq> k \<Longrightarrow> getcol c (without k l) = getcol c l"
  by (induction l) (auto simp: without_def getcol_def)

lemma names_without: "set (map fst (without k l)) = set (map fst l) - {k}"
  by (auto simp: without_def)

lemma keeps_key_first: "keeps X l ((k, getcol k l) # without k l)"
proof -
  have "c \<in> set (map fst ((k, getcol k l) # without k l)) \<and>
      getcol c ((k, getcol k l) # without k l) = getcol c l" if "c \<in> set (map fst l)" for c
  proof (cases "c = k")
    case True
    then show ?thesis by (simp add: getcol_def)
  next
    case False
    have "getcol c ((k, getcol k l) # without k l) = getcol c (without k l)"
      using False by (simp add: getcol_def)
    with False that show ?thesis
      using names_without [of k l] by (simp add: getcol_without)
  qed
  then show ?thesis unfolding keeps_def by blast
qed

lemma keeps_put_col: "keeps {c} r (put_col c v r)"
proof -
  have "d \<in> set (map fst (put_col c v r)) \<and> getcol d (put_col c v r) = getcol d r"
    if "d \<in> set (map fst r)" "d \<noteq> c" for d
  proof (cases "c \<in> set (map fst r)")
    case True
    have "getcol d (map (\<lambda>kv. if fst kv = c then (c, v) else kv) r) = getcol d r"
      using that(2) by (induction r) (auto simp: getcol_def)
    moreover have "d \<in> set (map fst (map (\<lambda>kv. if fst kv = c then (c, v) else kv) r))"
      using that by (induction r) auto
    ultimately show ?thesis using True by (simp add: put_col_def)
  next
    case False
    then show ?thesis using that(1) by (simp add: put_col_def getcol_append_left)
  qed
  then show ?thesis unfolding keeps_def by blast
qed

lemma keeps_drop: "keeps (set cs) r (filter (\<lambda>kv. fst kv \<notin> set cs) r)"
proof -
  have "getcol d (filter (\<lambda>kv. fst kv \<notin> set cs) r) = getcol d r" if "d \<notin> set cs" for d
    using that by (induction r) (auto simp: getcol_def)
  then show ?thesis unfolding keeps_def by auto
qed

lemma join_using_rows_left:
  "join_using_rows k LeftOuter right l \<noteq> []"
  "e \<in> set (join_using_rows k LeftOuter right l) \<Longrightarrow> keeps {} l e"
proof -
  show "join_using_rows k LeftOuter right l \<noteq> []"
    by (simp add: join_using_rows_def Let_def)
  assume "e \<in> set (join_using_rows k LeftOuter right l)"
  then obtain r' where "e = ((k, getcol k l) # without k l) @ r'"
    by (auto simp: join_using_rows_def Let_def split: if_splits)
  then show "keeps {} l e"
    using keeps_trans [OF keeps_key_first [of "{}" l k] keeps_append [of "{}" _ r']] by simp
qed

lemma join_rows_left:
  "join_rows on LeftOuter right l \<noteq> []"
  "e \<in> set (join_rows on LeftOuter right l) \<Longrightarrow> keeps {} l e"
proof -
  show "join_rows on LeftOuter right l \<noteq> []"
    by (simp add: join_rows_def Let_def)
  assume "e \<in> set (join_rows on LeftOuter right l)"
  then obtain r' where "e = l @ r'"
    by (auto simp: join_rows_def Let_def split: if_splits)
  then show "keeps {} l e" by (simp add: keeps_append)
qed

lemma filter_distinct_key:
  "distinct (map f xs) \<Longrightarrow> length (filter (\<lambda>x. f x = v) xs) \<le> 1"
proof (induction xs)
  case Nil
  then show ?case by simp
next
  case (Cons a xs)
  then have d: "f a \<notin> f ` set xs" "distinct (map f xs)" by simp_all
  show ?case
  proof (cases "f a = v")
    case True
    with d(1) have "filter (\<lambda>x. f x = v) xs = []"
      unfolding filter_empty_conv by (metis imageI)
    with True show ?thesis by simp
  next
    case False
    with Cons.IH [OF d(2)] show ?thesis by simp
  qed
qed

lemma join_using_rows_once:
  assumes "distinct (map (getcol k) (rows right))"
  shows "length (join_using_rows k LeftOuter right l) = 1"
proof -
  let ?ms = "filter (\<lambda>r. sql_eq (getcol k l) (getcol k r) = Some True) (rows right)"
  have "length ?ms \<le> 1"
  proof (cases "getcol k l = Null")
    case True
    then show ?thesis by (simp add: sql_eq_def)
  next
    case False
    have "?ms = filter (\<lambda>r. getcol k r = getcol k l) (rows right)"
      by (rule filter_cong [OF refl]) (use False in \<open>auto simp: sql_eq_def\<close>)
    then show ?thesis using filter_distinct_key [OF assms] by simp
  qed
  then have "?ms = [] \<or> length ?ms = 1" by (cases ?ms) auto
  then show ?thesis
    by (auto simp: join_using_rows_def Let_def)
qed

lemma join_using_rows_unmatched:
  assumes "\<forall>r \<in> set (rows right). getcol k r \<noteq> getcol k l"
  shows "join_using_rows k LeftOuter right l =
     [((k, getcol k l) # without k l) @ null_row (filter (\<lambda>c. c \<noteq> k) (columns right))]"
proof -
  have "filter (\<lambda>r. sql_eq (getcol k l) (getcol k r) = Some True) (rows right) = []"
    unfolding filter_empty_conv using assms by (auto simp: sql_eq_def)
  then show ?thesis by (simp add: join_using_rows_def Let_def)
qed

lemma join_rows_unmatched:
  assumes "\<forall>r \<in> set (rows right). on l r \<noteq> Some True"
  shows "join_rows on LeftOuter right l = [l @ null_row (columns right)]"
proof -
  have "filter (\<lambda>r. on l r = Some True) (rows right) = []"
    unfolding filter_empty_conv using assms by blast
  then show ?thesis by (simp add: join_rows_def Let_def)
qed

lemma collect_Inr: "collect (map (\<lambda>r. Inr (g r)) xs) = Inr (map g xs)"
  by (induction xs) simp_all

lemma distance_udf_total: "\<exists>v. distance_udf a b c d = Inr v"
proof -
  obtain v where "distance (to_python a) (to_python b) (to_python c) (to_python d) = Inr v"
    using distance_total by blast
  then show ?thesis by (simp add: distance_udf_def)
qed

lemma withColumn_udf_total:
  assumes "\<And>r. \<exists>v. f r = Inr v"
  shows "withColumn_udf c f df = Inr (withColumn c (\<lambda>r. projr (f r)) df)"
proof -
  have "(case f r of Inl e \<Rightarrow> Inl e | Inr v \<Rightarrow> Inr (put_col c v r)) = Inr (put_col c (projr (f r)) r)" for r
    using assms [of r] by auto
  then show ?thesis
    by (simp add: withColumn_udf_def withColumn_def collect_Inr)
qed

lemma add_distance_dataframe_total:
  "\<exists>cell. add_distance_dataframe ref df =
     Inr (withColumn ''distance'' cell (join_origin ref (join_destination ref df)))"
  unfolding add_distance_dataframe_def Let_def
  using withColumn_udf_total [OF distance_udf_total] by blast

lemma rows_join_destination:
  "rows (join_destination ref df) = concat (map (destination_rows ref) (rows df))"
  by (simp add: join_destination_def destination_rows_def [abs_def])

lemma rows_join_origin:
  "rows (join_origin ref df) = concat (map (origin_rows ref) (rows df))"
  by (simp add: join_origin_def origin_rows_def [abs_def])

lemma rows_add_aircrafts_dataframe:
  "rows (add_aircrafts_dataframe ref df) = concat (map (aircraft_rows ref) (rows df))"
  by (simp add: add_aircrafts_dataframe_def aircraft_rows_def [abs_def])

lemma rows_add_airlines_dataframe:
  "rows (add_airlines_dataframe ref df) =
     map (filter (\<lambda>kv. fst kv \<notin> set [''airline_icao'', ''airline_iata'']))
       (concat (map (airline_rows ref) (rows df)))"
  by (simp add: add_airlines_dataframe_def Let_def airline_rows_def [abs_def] comp_def conj_commute)

lemma concat_map_expand:
  "concat (map g (concat (map f xs))) = concat (map (\<lambda>x. concat (map g (f x))) xs)"
  by (induction xs) simp_all

lemma enriched_expansion:
  "\<exists>out expand. enriched ref flights = Inr out \<and>
     rows out = concat (map expand (rows (clean_dataframe flights))) \<and>
     (\<forall>l. expand l \<noteq> [] \<and>
          (\<forall>e \<in> set (expand l). keeps {''distance'', ''airline_icao'', ''airline_iata''} l e))"
proof -
  let ?df = "clean_dataframe flights"
  obtain cell where d: "add_distance_dataframe ref ?df =
      Inr (withColumn ''distance'' cell (join_origin ref (join_destination ref ?df)))"
    using add_distance_dataframe_total by blast
  let ?out = "add_airlines_dataframe ref (add_aircrafts_dataframe ref
      (withColumn ''distance'' cell (join_origin ref (join_destination ref ?df))))"
  let ?d = "\<lambda>r. [put_col ''distance'' (cell r) r]"
  let ?dr = "\<lambda>r. [filter (\<lambda>kv. fst kv \<notin> set [''airline_icao'', ''airline_iata'']) r]"
  let ?expand = "\<lambda>l. concat (map ?dr (concat (map (airline_rows ref) (concat (map (aircraft_rows ref) (concat (map ?d (concat (map (origin_rows ref) (destination_rows ref l))))))))))"
  have out: "enriched ref flights = Inr ?out"
    by (simp add: enriched_def Let_def d)
  have m: "map h xs = concat (map (\<lambda>x. [h x]) xs)" for h :: "row \<Rightarrow> row" and xs
    by (induction xs) simp_all
  have "rows ?out = concat (map ?dr (concat (map (airline_rows ref) (concat (map (aircraft_rows ref) (concat (map ?d (concat (map (origin_rows ref) (concat (map (destination_rows ref) (rows ?df))))))))))))"
    unfolding rows_add_airlines_dataframe rows_add_aircrafts_dataframe rows_withColumn
      rows_join_origin rows_join_destination
    by (simp only: m [symmetric])
  also have "\<dots> = concat (map ?expand (rows ?df))"
    by (simp only: concat_map_expand)
  finally have rows: "rows ?out = concat (map ?expand (rows ?df))" .
  have ne: "?expand l \<noteq> []" for l
  proof -
    obtain e1 where e1: "e1 \<in> set (destination_rows ref l)"
      using join_using_rows_left(1) [of "''destination_airport_iata''" "broadcast (df_airport_destination ref)" l]
      unfolding destination_rows_def by (meson last_in_set)
    obtain e2 where e2: "e2 \<in> set (origin_rows ref e1)"
      using join_using_rows_left(1) [of "''origin_airport_iata''" "broadcast (df_airport_origin ref)" e1]
      unfolding origin_rows_def by (meson last_in_set)
    obtain e3 where e3: "e3 \<in> set (aircraft_rows ref (put_col ''distance'' (cell e2) e2))"
      using join_rows_left(1) unfolding aircraft_rows_def by (meson last_in_set)
    obtain e4 where e4: "e4 \<in> set (airline_rows ref e3)"
      using join_rows_left(1) unfolding airline_rows_def by (meson last_in_set)
    from e1 e2 e3 e4 have
      "filter (\<lambda>kv. fst kv \<notin> set [''airline_icao'', ''airline_iata'']) e4 \<in> set (?expand l)"
      by auto
    then show ?thesis by (metis empty_iff list.set(1))
  qed
  have kp: "keeps {''distance'', ''airline_icao'', ''airline_iata''} l e" if "e \<in> set (?expand l)" for l e
  proof -
    from that obtain e1 e2 e3 e4 where
      e1: "e1 \<in> set (destination_rows ref l)" and
      e2: "e2 \<in> set (origin_rows ref e1)" and
      e3: "e3 \<in> set (aircraft_rows ref (put_col ''distance'' (cell e2) e2))" and
      e4: "e4 \<in> set (airline_rows ref e3)" and
      e: "e = filter (\<lambda>kv. fst kv \<notin> set [''airline_icao'', ''airline_iata'']) e4"
      by auto
    have k1: "keeps {} l e1" using e1 unfolding destination_rows_def by (rule join_using_rows_left(2))
    have k2: "keeps {} e1 e2" using e2 unfolding origin_rows_def by (rule join_using_rows_left(2))
    have k3: "keeps {''distance''} e2 (put_col ''distance'' (cell e2) e2)" by (rule keeps_put_col)
    have k4: "keeps {} (put_col ''distance'' (cell e2) e2) e3"
      using e3 unfolding aircraft_rows_def by (rule join_rows_left(2))
    have k5: "keeps {} e3 e4" using e4 unfolding airline_rows_def by (rule join_rows_left(2))
    have k6: "keeps (set [''airline_icao'', ''airline_iata'']) e4 e" unfolding e by (rule keeps_drop)
    from keeps_trans [OF keeps_trans [OF keeps_trans [OF keeps_trans [OF keeps_trans [OF k1 k2] k3] k4] k5] k6]
    show ?thesis by (simp add: insert_commute)
  qed
  from out rows ne kp show ?thesis by blast
qed

lemma sql_eq_unmatched: "b \<noteq> a \<Longrightarrow> sql_eq a b \<noteq> Some True"
  by (simp add: sql_eq_def)

lemma sql_or_unmatched: "b \<noteq> a \<Longrightarrow> d \<noteq> c \<Longrightarrow> sql_or (sql_eq a b) (sql_eq c d) \<noteq> Some True"
  by (simp add: sql_or_def sql_eq_def)

text \<open>
  C2, as the code has it. Each of the four joins is a left join: the rows after the
  join are the rows of the flights in turn, a flight has at least one row, and each of
  its rows keeps every column the flight had. In an airport join a flight has exactly
  one row when no two airports of the catalog share a code. End to end, for a regular
  snapshot without a column named \<open>distance\<close> whose columns and reference files
  resolve, and whenever the distance stage returns, every cleaned flight has at least
  one enriched row, and each keeps every column of the flight other than
  \<open>airline_icao\<close> and \<open>airline_iata\<close>, about which nothing is said here. A flight
  without a match has one row: its columns followed by nulls under the columns the
  catalog adds.
\<close>

theorem enrichment_left_outer:
  "rows (join_destination ref df) = concat (map (destination_rows ref) (rows df))
   \<and> rows (join_origin ref df) = concat (map (origin_rows ref) (rows df))
   \<and> rows (add_aircrafts_dataframe ref df) = concat (map (aircraft_rows ref) (rows df))
   \<and> rows (add_airlines_dataframe ref df) =
       map (filter (\<lambda>kv. fst kv \<notin> set [''airline_icao'', ''airline_iata'']))
         (concat (map (airline_rows ref) (rows df)))
   \<and> (\<forall>l. destination_rows ref l \<noteq> [] \<and> origin_rows ref l \<noteq> [] \<and>
            aircraft_rows ref l \<noteq> [] \<and> airline_rows ref l \<noteq> [] \<and>
            (\<forall>e \<in> set (destination_rows ref l) \<union> set (origin_rows ref l) \<union>
                    set (aircraft_rows ref l) \<union> set (airline_rows ref l). keeps {} l e))
   \<and> (distinct (map (getcol ''destination_airport_iata'') (rows (df_airport_destination ref))) \<longrightarrow>
        (\<forall>l. length (destination_rows ref l) = 1))
   \<and> (distinct (map (getcol ''origin_airport_iata'') (rows (df_airport_origin ref))) \<longrightarrow>
        (\<forall>l. length (origin_rows ref l) = 1))
   \<and> (frame_ok flights \<and> inputs_resolve ref flights \<and> ''distance'' \<notin> set (columns flights) \<and>
        enriched ref flights = Inr out \<longrightarrow>
        (\<exists>expand. rows out = concat (map expand (rows (clean_dataframe flights))) \<and>
           (\<forall>l \<in> set (rows (clean_dataframe flights)). expand l \<noteq> [] \<and>
              (\<forall>e \<in> set (expand l). keeps {''airline_icao'', ''airline_iata''} l e))))
   \<and> ((\<forall>r \<in> set (rows (df_airport_destination ref)).
           getcol ''destination_airport_iata'' r \<noteq> getcol ''destination_airport_iata'' l) \<longrightarrow>
        destination_rows ref l =
          [((''destination_airport_iata'', getcol ''destination_airport_iata'' l) #
              without ''destination_airport_iata'' l) @
           null_row (filter (\<lambda>c. c \<noteq> ''destination_airport_iata'') (columns (df_airport_destination ref)))])
   \<and> ((\<forall>r \<in> set (rows (df_airport_origin ref)).
           getcol ''origin_airport_iata'' r \<noteq> getcol ''origin_airport_iata'' l) \<longrightarrow>
        origin_rows ref l =
          [((''origin_airport_iata'', getcol ''origin_airport_iata'' l) # without ''origin_airport_iata'' l) @
           null_row (filter (\<lambda>c. c \<noteq> ''origin_airport_iata'') (columns (df_airport_origin ref)))])
   \<and> ((\<forall>r \<in> set (rows (df_aircrafts ref)). getcol ''aircraft_code'' r \<noteq> getcol ''aircraft_code'' l) \<longrightarrow>
        aircraft_rows ref l = [l @ null_row (columns (df_aircrafts ref))])
   \<and> ((\<forall>r \<in> set (rows (df_airlines ref)).
           getcol ''airline_icao'' r \<noteq> getcol ''airline_icao'' l \<and>
           getcol ''airline_iata'' r \<noteq> getcol ''airline_iata'' l) \<longrightarrow>
        airline_rows ref l = [l @ null_row (columns (df_airlines ref))])"
proof -
  have stage: "destination_rows ref l \<noteq> [] \<and> origin_rows ref l \<noteq> [] \<and>
            aircraft_rows ref l \<noteq> [] \<and> airline_rows ref l \<noteq> [] \<and>
            (\<forall>e \<in> set (destination_rows ref l) \<union> set (origin_rows ref l) \<union>
                    set (aircraft_rows ref l) \<union> set (airline_rows ref l). keeps {} l e)" for l
    unfolding destination_rows_def origin_rows_def aircraft_rows_def airline_rows_def
    using join_using_rows_left join_rows_left by (simp add: ball_Un)
  have d_once: "distinct (map (getcol ''destination_airport_iata'') (rows (df_airport_destination ref))) \<longrightarrow>
        (\<forall>l. length (destination_rows ref l) = 1)"
    unfolding destination_rows_def broadcast_def using join_using_rows_once by blast
  have o_once: "distinct (map (getcol ''origin_airport_iata'') (rows (df_airport_origin ref))) \<longrightarrow>
        (\<forall>l. length (origin_rows ref l) = 1)"
    unfolding origin_rows_def broadcast_def using join_using_rows_once by blast
  have d_un: "(\<forall>r \<in> set (rows (df_airport_destination ref)).
           getcol ''destination_airport_iata'' r \<noteq> getcol ''destination_airport_iata'' l) \<longrightarrow>
        destination_rows ref l =
          [((''destination_airport_iata'', getcol ''destination_airport_iata'' l) #
              without ''destination_airport_iata'' l) @
           null_row (filter (\<lambda>c. c \<noteq> ''destination_airport_iata'') (columns (df_airport_destination ref)))]"
    unfolding destination_rows_def broadcast_def using join_using_rows_unmatched by blast
  have o_un: "(\<forall>r \<in> set (rows (df_airport_origin ref)).
           getcol ''origin_airport_iata'' r \<noteq> getcol ''origin_airport_iata'' l) \<longrightarrow>
        origin_rows ref l =
          [((''origin_airport_iata'', getcol ''origin_airport_iata'' l) # without ''origin_airport_iata'' l) @
           null_row (filter (\<lambda>c. c \<noteq> ''origin_airport_iata'') (columns (df_airport_origin ref)))]"
    unfolding origin_rows_def broadcast_def using join_using_rows_unmatched by blast
  have a_un: "(\<forall>r \<in> set (rows (df_aircrafts ref)). getcol ''aircraft_code'' r \<noteq> getcol ''aircraft_code'' l) \<longrightarrow>
        aircraft_rows ref l = [l @ null_row (columns (df_aircrafts ref))]"
  proof
    assume "\<forall>r \<in> set (rows (df_aircrafts ref)). getcol ''aircraft_code'' r \<noteq> getcol ''aircraft_code'' l"
    then have "\<forall>r \<in> set (rows (df_aircrafts ref)).
        sql_eq (getcol ''aircraft_code'' l) (getcol ''aircraft_code'' r) \<noteq> Some True"
      using sql_eq_unmatched by blast
    then show "aircraft_rows ref l = [l @ null_row (columns (df_aircrafts ref))]"
      unfolding aircraft_rows_def broadcast_def by (rule join_rows_unmatched)
  qed
  have l_un: "(\<forall>r \<in> set (rows (df_airlines ref)).
           getcol ''airline_icao'' r \<noteq> getcol ''airline_icao'' l \<and>
           getcol ''airline_iata'' r \<noteq> getcol ''airline_iata'' l) \<longrightarrow>
        airline_rows ref l = [l @ null_row (columns (df_airlines ref))]"
  proof
    assume "\<forall>r \<in> set (rows (df_airlines ref)).
           getcol ''airline_icao'' r \<noteq> getcol ''airline_icao'' l \<and>
           getcol ''airline_iata'' r \<noteq> getcol ''airline_iata'' l"
    then have "\<forall>r \<in> set (rows (df_airlines ref)).
        sql_or (sql_eq (getcol ''airline_icao'' l) (getcol ''airline_icao'' r))
               (sql_eq (getcol ''airline_iata'' l) (getcol ''airline_iata'' r)) \<noteq> Some True"
      using sql_or_unmatched by blast
    then show "airline_rows ref l = [l @ null_row (columns (df_airlines ref))]"
      unfolding airline_rows_def broadcast_def by (rule join_rows_unmatched)
  qed
  from stage have stage': "\<forall>l. destination_rows ref l \<noteq> [] \<and> origin_rows ref l \<noteq> [] \<and>
            aircraft_rows ref l \<noteq> [] \<and> airline_rows ref l \<noteq> [] \<and>
            (\<forall>e \<in> set (destination_rows ref l) \<union> set (origin_rows ref l) \<union>
                    set (aircraft_rows ref l) \<union> set (airline_rows ref l). keeps {} l e)" by blast
  have whole: "frame_ok flights \<and> inputs_resolve ref flights \<and> ''distance'' \<notin> set (columns flights) \<and>
        enriched ref flights = Inr out \<longrightarrow>
        (\<exists>expand. rows out = concat (map expand (rows (clean_dataframe flights))) \<and>
           (\<forall>l \<in> set (rows (clean_dataframe flights)). expand l \<noteq> [] \<and>
              (\<forall>e \<in> set (expand l). keeps {''airline_icao'', ''airline_iata''} l e)))"
  proof
    assume h: "frame_ok flights \<and> inputs_resolve ref flights \<and> ''distance'' \<notin> set (columns flights) \<and>
        enriched ref flights = Inr out"
    from enriched_expansion [of ref flights] obtain out' expand where
      x: "enriched ref flights = Inr out'"
        "rows out' = concat (map expand (rows (clean_dataframe flights)))"
        "\<forall>l. expand l \<noteq> [] \<and>
          (\<forall>e \<in> set (expand l). keeps {''distance'', ''airline_icao'', ''airline_iata''} l e)"
      by blast
    from h x(1) have o: "out' = out" by simp
    have "expand l \<noteq> [] \<and> (\<forall>e \<in> set (expand l). keeps {''airline_icao'', ''airline_iata''} l e)"
      if l: "l \<in> set (rows (clean_dataframe flights))" for l
    proof -
      from l have "l \<in> set (rows flights)"
        by (simp add: clean_dataframe_def Let_def)
      with h have "map fst l = columns flights"
        by (simp add: frame_ok_def list_all_iff)
      with h have nd: "''distance'' \<notin> set (map fst l)" by simp
      have "keeps {''airline_icao'', ''airline_iata''} l e" if "e \<in> set (expand l)" for e
        using x(3) that keeps_absent [OF nd, of "{''airline_icao'', ''airline_iata''}" e] by blast
      with x(3) show ?thesis by blast
    qed
    with x(2) o show "\<exists>expand. rows out = concat (map expand (rows (clean_dataframe flights))) \<and>
           (\<forall>l \<in> set (rows (clean_dataframe flights)). expand l \<noteq> [] \<and>
              (\<forall>e \<in> set (expand l). keeps {''airline_icao'', ''airline_iata''} l e))"
      by blast
  qed
  show ?thesis
    by (intro conjI) (rule rows_join_destination, rule rows_join_origin, rule rows_add_aircrafts_dataframe,
        rule rows_add_airlines_dataframe, rule stage', rule d_once, rule o_once, rule whole,
        rule d_un, rule o_un, rule a_un, rule l_un)
qed

section \<open>The pipeline on the unmatched flight\<close>

lemma unmatched_airport_joins:
  "join_origin small_reference (join_destination small_reference (clean_dataframe unmatched_flight)) =
     unmatched_joined"
  by code_simp

lemma unmatched_distance:
  "add_distance_dataframe small_reference (clean_dataframe unmatched_flight) =
     Inr (withColumn ''distance'' (\<lambda>r. Null) unmatched_joined)"
  unfolding add_distance_dataframe_def Let_def unmatched_airport_joins
  by (simp add: unmatched_joined_def withColumn_udf_def withColumn_def distance_udf_def distance_def
      to_python_def from_python_FloatType_def getcol_def)

lemma unmatched_reference_joins:
  "add_airlines_dataframe small_reference
     (add_aircrafts_dataframe small_reference (withColumn ''distance'' (\<lambda>r. Null) unmatched_joined)) =
   unmatched_enriched"
  by code_simp

lemma enriched_unmatched: "enriched small_reference unmatched_flight = Inr unmatched_enriched"
  unfolding enriched_def Let_def unmatched_distance
  by (simp add: unmatched_reference_joins)

theorem enrichment_left_outer_witness:
  "distinct (map (getcol ''destination_airport_iata'') (rows (df_airport_destination small_reference)))
   \<and> length (destination_rows small_reference cdg_jfk) = 1
   \<and> getcol ''destination_airport_iata'' cdg_jfk
        \<notin> set (map (getcol ''destination_airport_iata'') (rows (df_airport_destination small_reference)))
   \<and> destination_rows small_reference cdg_jfk =
       [[(''destination_airport_iata'', Str ''JFK''), (''id'', Str ''f1''), (''origin_airport_iata'', Str ''CDG''),
         (''aircraft_code'', Str ''A320''), (''airline_iata'', Str ''AF''), (''airline_icao'', Str ''AFR''),
         (''on_ground'', Num 0), (''destination_latitude_deg'', Null), (''destination_longitude_deg'', Null),
         (''destination_airport_continent'', Null)]]
   \<and> frame_ok unmatched_flight \<and> inputs_resolve small_reference unmatched_flight
   \<and> ''distance'' \<notin> set (columns unmatched_flight)
   \<and> enriched small_reference unmatched_flight = Inr unmatched_enriched
   \<and> rows (clean_dataframe unmatched_flight) = [unmatched_row]
   \<and> keeps {''airline_icao'', ''airline_iata''} unmatched_row (hd (rows unmatched_enriched))"
proof -
  note t = enrichment_left_outer [where ref = small_reference and l = cdg_jfk and df = one_flight
      and flights = one_flight]
  note t6 = t [THEN conjunct2, THEN conjunct2, THEN conjunct2, THEN conjunct2, THEN conjunct2, THEN conjunct1]
  note t9 = t [THEN conjunct2, THEN conjunct2, THEN conjunct2, THEN conjunct2, THEN conjunct2, THEN conjunct2, THEN conjunct2, THEN conjunct2, THEN conjunct1]
  have d: "distinct (map (getcol ''destination_airport_iata'') (rows (df_airport_destination small_reference)))"
    by code_simp
  have n: "getcol ''destination_airport_iata'' cdg_jfk
        \<notin> set (map (getcol ''destination_airport_iata'') (rows (df_airport_destination small_reference)))"
    by code_simp
  have n': "\<forall>r \<in> set (rows (df_airport_destination small_reference)).
      getcol ''destination_airport_iata'' r \<noteq> getcol ''destination_airport_iata'' cdg_jfk"
  proof
    fix r assume "r \<in> set (rows (df_airport_destination small_reference))"
    then have "getcol ''destination_airport_iata'' r
        \<in> set (map (getcol ''destination_airport_iata'') (rows (df_airport_destination small_reference)))"
      by simp
    with n show "getcol ''destination_airport_iata'' r \<noteq> getcol ''destination_airport_iata'' cdg_jfk"
      by metis
  qed
  have e: "[((''destination_airport_iata'', getcol ''destination_airport_iata'' cdg_jfk) #
              without ''destination_airport_iata'' cdg_jfk) @
           null_row (filter (\<lambda>c. c \<noteq> ''destination_airport_iata'') (columns (df_airport_destination small_reference)))]
      = [[(''destination_airport_iata'', Str ''JFK''), (''id'', Str ''f1''), (''origin_airport_iata'', Str ''CDG''),
         (''aircraft_code'', Str ''A320''), (''airline_iata'', Str ''AF''), (''airline_icao'', Str ''AFR''),
         (''on_ground'', Num 0), (''destination_latitude_deg'', Null), (''destination_longitude_deg'', Null),
         (''destination_airport_continent'', Null)]]"
    by code_simp
  from mp [OF t6 d] have one: "length (destination_rows small_reference cdg_jfk) = 1" by (rule spec)
  from mp [OF t9 n'] have "destination_rows small_reference cdg_jfk =
      [((''destination_airport_iata'', getcol ''destination_airport_iata'' cdg_jfk) #
              without ''destination_airport_iata'' cdg_jfk) @
           null_row (filter (\<lambda>c. c \<noteq> ''destination_airport_iata'') (columns (df_airport_destination small_reference)))]"
    .
  then have rows: "destination_rows small_reference cdg_jfk =
       [[(''destination_airport_iata'', Str ''JFK''), (''id'', Str ''f1''), (''origin_airport_iata'', Str ''CDG''),
         (''aircraft_code'', Str ''A320''), (''airline_iata'', Str ''AF''), (''airline_icao'', Str ''AFR''),
         (''on_ground'', Num 0), (''destination_latitude_deg'', Null), (''destination_longitude_deg'', Null),
         (''destination_airport_continent'', Null)]]"
    unfolding e .
  note w = enrichment_left_outer [where ref = small_reference and flights = unmatched_flight
      and out = unmatched_enriched and df = unmatched_flight and l = unmatched_row]
  note t8 = w [THEN conjunct2, THEN conjunct2, THEN conjunct2, THEN conjunct2, THEN conjunct2, THEN conjunct2, THEN conjunct2, THEN conjunct1]
  have f: "frame_ok unmatched_flight" by code_simp
  have i: "inputs_resolve small_reference unmatched_flight" by code_simp
  have nd: "''distance'' \<notin> set (columns unmatched_flight)" by (simp add: unmatched_flight_def)
  have cl: "rows (clean_dataframe unmatched_flight) = [unmatched_row]" by code_simp
  from f i nd enriched_unmatched have
    "frame_ok unmatched_flight \<and> inputs_resolve small_reference unmatched_flight \<and>
     ''distance'' \<notin> set (columns unmatched_flight) \<and>
     enriched small_reference unmatched_flight = Inr unmatched_enriched"
    by (intro conjI)
  from mp [OF t8 this] obtain expand where
    x: "rows unmatched_enriched = concat (map expand (rows (clean_dataframe unmatched_flight)))"
      "\<forall>l \<in> set (rows (clean_dataframe unmatched_flight)). expand l \<noteq> [] \<and>
          (\<forall>e \<in> set (expand l). keeps {''airline_icao'', ''airline_iata''} l e)"
    by blast
  from x(1) have r: "rows unmatched_enriched = expand unmatched_row" unfolding cl by simp
  from x(2) have "expand unmatched_row \<noteq> [] \<and>
      (\<forall>e \<in> set (expand unmatched_row). keeps {''airline_icao'', ''airline_iata''} unmatched_row e)"
    unfolding cl by simp
  then have k: "keeps {''airline_icao'', ''airline_iata''} unmatched_row (hd (rows unmatched_enriched))"
    unfolding r by (meson hd_in_set)
  show ?thesis
    by (intro conjI) (rule d, rule one, rule n, rule rows, rule f, rule i, rule nd,
        rule enriched_unmatched, rule cl, rule k)
qed

text \<open>
  C2 as stated fails twice. With the airport CDG listed twice in the airport file, the
  one cleaned flight from CDG has two rows after the airport joins. And the flight that
  matches nothing comes out of the enrichment without its \<open>airline_iata\<close> and
  \<open>airline_icao\<close> columns.
\<close>

theorem enrichment_counterexample:
  "length (rows (clean_dataframe one_flight)) = 1
   \<and> length (rows (join_origin twin_reference (join_destination twin_reference (clean_dataframe one_flight)))) = 2
   \<and> enriched small_reference unmatched_flight = Inr unmatched_enriched
   \<and> ''airline_iata'' \<in> set (columns unmatched_flight)
   \<and> ''airline_icao'' \<in> set (columns unmatched_flight)
   \<and> ''airline_iata'' \<notin> set (columns unmatched_enriched)
   \<and> ''airline_icao'' \<notin> set (columns unmatched_enriched)
   \<and> map (map fst) (rows unmatched_enriched) = [columns unmatched_enriched]"
proof -
  have c1: "length (rows (clean_dataframe one_flight)) = 1" by code_simp
  have c2: "length (rows (join_origin twin_reference
      (join_destination twin_reference (clean_dataframe one_flight)))) = 2" by code_simp
  have c3: "''airline_iata'' \<in> set (columns unmatched_flight)" by (simp add: unmatched_flight_def)
  have c4: "''airline_icao'' \<in> set (columns unmatched_flight)" by (simp add: unmatched_flight_def)
  have c5: "''airline_iata'' \<notin> set (columns unmatched_enriched)" by (simp add: unmatched_enriched_def)
  have c6: "''airline_icao'' \<notin> set (columns unmatched_enriched)" by (simp add: unmatched_enriched_def)
  have c7: "map (map fst) (rows unmatched_enriched) = [columns unmatched_enriched]"
    by (simp add: unmatched_enriched_def)
  show ?thesis
    by (intro conjI) (rule c1, rule c2, rule enriched_unmatched, rule c3, rule c4, rule c5, rule c6, rule c7)
qed

section \<open>Empty inputs\<close>

lemma empty_airport_joins:
  "join_origin small_reference (join_destination small_reference (clean_dataframe empty_snapshot)) =
     empty_joined"
  by code_simp

lemma empty_distance:
  "add_distance_dataframe small_reference (clean_dataframe empty_snapshot) =
     Inr (withColumn ''distance'' (\<lambda>r. Null) empty_joined)"
  unfolding add_distance_dataframe_def Let_def empty_airport_joins
  by (simp add: empty_joined_def withColumn_udf_def withColumn_def)

lemma empty_reference_joins:
  "add_airlines_dataframe small_reference
     (add_aircrafts_dataframe small_reference (withColumn ''distance'' (\<lambda>r. Null) empty_joined)) =
   empty_enriched"
  by code_simp

lemma enriched_empty: "enriched small_reference empty_snapshot = Inr empty_enriched"
  unfolding enriched_def Let_def empty_distance
  by (simp add: empty_reference_joins)

lemma queries_on_no_rows:
  "rows df = [] \<Longrightarrow>
     rows (df_q1 df) = [] \<and> rows (df_q2 df) = [] \<and> rows (df_q3 df) = [] \<and> rows (df_q4 df) = [] \<and>
     rows (df_q5 df) = [] \<and> rows (df_q6 df) = [] \<and> rows (df_qb df) = []"
  by (simp add: df_q1_def df_q2_def q2_ranked_def q2_regional_def df_q3_def df_q4_def q4_means_def
      df_q5_def df_q6_def q6_counts_def df_qb_def qb_differences_def Let_def)

text \<open>
  C8. On an active set and an enriched set without rows, in which the columns the
  queries name resolve (as they do in the frames the enrichment produces), each of the
  seven queries passes the analysis and returns a table without rows. Q4 has no row for
  an origin continent none of whose rows has a distance greater than 0, every mean it
  returns is a number, and attaching the display name neither adds nor loses a row.
\<close>

theorem empty_inputs:
  "(rows df_active = [] \<and> rows df = [] \<and>
    has_columns [''airline_name'', ''origin_airport_continent'', ''destination_airport_continent'',
                 ''distance'', ''aircraft_name''] df_active \<and>
    has_columns [''airline_name'', ''aircraft_name'', ''origin_airport_continent'', ''distance'',
                 ''origin_airport_iata'', ''id'', ''destination_airport_iata''] df \<longrightarrow>
      run_q1 df_active = Inr (df_q1 df_active) \<and> rows (df_q1 df_active) = [] \<and>
      run_q2 df_active = Inr (df_q2 df_active) \<and> rows (df_q2 df_active) = [] \<and>
      run_q3 df_active = Inr (df_q3 df_active) \<and> rows (df_q3 df_active) = [] \<and>
      run_q4 df = Inr (df_q4 df) \<and> rows (df_q4 df) = [] \<and>
      run_q5 df_active = Inr (df_q5 df_active) \<and> rows (df_q5 df_active) = [] \<and>
      run_q6 df = Inr (df_q6 df) \<and> rows (df_q6 df) = [] \<and>
      run_qb df = Inr (df_qb df) \<and> rows (df_qb df) = [])
   \<and> (filter (\<lambda>r. getcol ''origin_airport_continent'' r = k \<and> positive_distance r) (rows df') = [] \<longrightarrow>
        filter (\<lambda>r. getcol ''origin_airport_continent'' r = k) (rows (q4_means df')) = [])
   \<and> (\<forall>r \<in> set (rows (df_q4 df')). \<exists>x. getcol ''distance_mean'' r = Num x)
   \<and> length (rows (df_q4 df')) = length (rows (q4_means df'))"
proof -
  have one: "rows df_active = [] \<and> rows df = [] \<and>
    has_columns [''airline_name'', ''origin_airport_continent'', ''destination_airport_continent'',
                 ''distance'', ''aircraft_name''] df_active \<and>
    has_columns [''airline_name'', ''aircraft_name'', ''origin_airport_continent'', ''distance'',
                 ''origin_airport_iata'', ''id'', ''destination_airport_iata''] df \<longrightarrow>
      run_q1 df_active = Inr (df_q1 df_active) \<and> rows (df_q1 df_active) = [] \<and>
      run_q2 df_active = Inr (df_q2 df_active) \<and> rows (df_q2 df_active) = [] \<and>
      run_q3 df_active = Inr (df_q3 df_active) \<and> rows (df_q3 df_active) = [] \<and>
      run_q4 df = Inr (df_q4 df) \<and> rows (df_q4 df) = [] \<and>
      run_q5 df_active = Inr (df_q5 df_active) \<and> rows (df_q5 df_active) = [] \<and>
      run_q6 df = Inr (df_q6 df) \<and> rows (df_q6 df) = [] \<and>
      run_qb df = Inr (df_qb df) \<and> rows (df_qb df) = []"
  proof
    assume h: "rows df_active = [] \<and> rows df = [] \<and>
      has_columns [''airline_name'', ''origin_airport_continent'', ''destination_airport_continent'',
                 ''distance'', ''aircraft_name''] df_active \<and>
      has_columns [''airline_name'', ''aircraft_name'', ''origin_airport_continent'', ''distance'',
                 ''origin_airport_iata'', ''id'', ''destination_airport_iata''] df"
    then have r: "run_q1 df_active = Inr (df_q1 df_active)" "run_q2 df_active = Inr (df_q2 df_active)"
      "run_q3 df_active = Inr (df_q3 df_active)" "run_q4 df = Inr (df_q4 df)"
      "run_q5 df_active = Inr (df_q5 df_active)" "run_q6 df = Inr (df_q6 df)" "run_qb df = Inr (df_qb df)"
      by (simp_all add: run_q1_def run_q2_def run_q3_def run_q4_def run_q5_def run_q6_def run_qb_def
          analysed_def has_columns_def)
    from h queries_on_no_rows [of df_active] queries_on_no_rows [of df]
    have e: "rows (df_q1 df_active) = []" "rows (df_q2 df_active) = []" "rows (df_q3 df_active) = []"
      "rows (df_q4 df) = []" "rows (df_q5 df_active) = []" "rows (df_q6 df) = []" "rows (df_qb df) = []"
      by blast+
    show "run_q1 df_active = Inr (df_q1 df_active) \<and> rows (df_q1 df_active) = [] \<and>
      run_q2 df_active = Inr (df_q2 df_active) \<and> rows (df_q2 df_active) = [] \<and>
      run_q3 df_active = Inr (df_q3 df_active) \<and> rows (df_q3 df_active) = [] \<and>
      run_q4 df = Inr (df_q4 df) \<and> rows (df_q4 df) = [] \<and>
      run_q5 df_active = Inr (df_q5 df_active) \<and> rows (df_q5 df_active) = [] \<and>
      run_q6 df = Inr (df_q6 df) \<and> rows (df_q6 df) = [] \<and>
      run_qb df = Inr (df_qb df) \<and> rows (df_qb df) = []"
      by (intro conjI) (rule r(1), rule e(1), rule r(2), rule e(2), rule r(3), rule e(3), rule r(4),
          rule e(4), rule r(5), rule e(5), rule r(6), rule e(6), rule r(7), rule e(7))
  qed
  have two: "filter (\<lambda>r. getcol ''origin_airport_continent'' r = k \<and> positive_distance r) (rows df') = [] \<longrightarrow>
        filter (\<lambda>r. getcol ''origin_airport_continent'' r = k) (rows (q4_means df')) = []"
    by (auto simp: rows_q4_means filter_empty_conv getcol_def)
  have three: "\<forall>r \<in> set (rows (df_q4 df')). \<exists>x. getcol ''distance_mean'' r = Num x"
    by (auto simp: rows_df_q4 getcol_def)
  have four: "length (rows (df_q4 df')) = length (rows (q4_means df'))"
    by (simp add: rows_df_q4 rows_q4_means)
  show ?thesis
    by (intro conjI) (rule one, rule two, rule three, rule four)
qed

theorem empty_inputs_witness:
  "enriched small_reference empty_snapshot = Inr empty_enriched
   \<and> rows (get_active_flights empty_enriched) = [] \<and> rows empty_enriched = []
   \<and> has_columns [''airline_name'', ''origin_airport_continent'', ''destination_airport_continent'',
                 ''distance'', ''aircraft_name''] (get_active_flights empty_enriched)
   \<and> has_columns [''airline_name'', ''aircraft_name'', ''origin_airport_continent'', ''distance'',
                 ''origin_airport_iata'', ''id'', ''destination_airport_iata''] empty_enriched
   \<and> run_q1 (get_active_flights empty_enriched) = Inr (df_q1 (get_active_flights empty_enriched))
   \<and> rows (df_q1 (get_active_flights empty_enriched)) = []
   \<and> run_q2 (get_active_flights empty_enriched) = Inr (df_q2 (get_active_flights empty_enriched))
   \<and> rows (df_q2 (get_active_flights empty_enriched)) = []
   \<and> run_q3 (get_active_flights empty_enriched) = Inr (df_q3 (get_active_flights empty_enriched))
   \<and> rows (df_q3 (get_active_flights empty_enriched)) = []
   \<and> run_q4 empty_enriched = Inr (df_q4 empty_enriched) \<and> rows (df_q4 empty_enriched) = []
   \<and> run_q5 (get_active_flights empty_enriched) = Inr (df_q5 (get_active_flights empty_enriched))
   \<and> rows (df_q5 (get_active_flights empty_enriched)) = []
   \<and> run_q6 empty_enriched = Inr (df_q6 empty_enriched) \<and> rows (df_q6 empty_enriched) = []
   \<and> run_qb empty_enriched = Inr (df_qb empty_enriched) \<and> rows (df_qb empty_enriched) = []
   \<and> filter (\<lambda>r. getcol ''origin_airport_continent'' r = Str ''AS'' \<and> positive_distance r) (rows q4_fixture) = []
   \<and> filter (\<lambda>r. getcol ''origin_airport_continent'' r = Str ''AS'') (rows (q4_means q4_fixture)) = []
   \<and> length (rows (df_q4 q4_fixture)) = length (rows (q4_means q4_fixture))"
proof -
  note t = empty_inputs [where df_active = "get_active_flights empty_enriched" and df = empty_enriched
      and k = "Str ''AS''" and df' = q4_fixture]
  note t1 = t [THEN conjunct1]
  note t2 = t [THEN conjunct2, THEN conjunct1]
  note t4 = t [THEN conjunct2, THEN conjunct2, THEN conjunct2]
  have a: "rows (get_active_flights empty_enriched) = []" by code_simp
  have e: "rows empty_enriched = []" by (simp add: empty_enriched_def)
  have ca: "has_columns [''airline_name'', ''origin_airport_continent'', ''destination_airport_continent'',
                 ''distance'', ''aircraft_name''] (get_active_flights empty_enriched)" by code_simp
  have ce: "has_columns [''airline_name'', ''aircraft_name'', ''origin_airport_continent'', ''distance'',
                 ''origin_airport_iata'', ''id'', ''destination_airport_iata''] empty_enriched" by code_simp
  have f: "filter (\<lambda>r. getcol ''origin_airport_continent'' r = Str ''AS'' \<and> positive_distance r) (rows q4_fixture) = []"
    by (simp add: q4_fixture_def positive_distance_def getcol_def)
  have h: "rows (get_active_flights empty_enriched) = [] \<and> rows empty_enriched = [] \<and>
    has_columns [''airline_name'', ''origin_airport_continent'', ''destination_airport_continent'',
                 ''distance'', ''aircraft_name''] (get_active_flights empty_enriched) \<and>
    has_columns [''airline_name'', ''aircraft_name'', ''origin_airport_continent'', ''distance'',
                 ''origin_airport_iata'', ''id'', ''destination_airport_iata''] empty_enriched"
    by (intro conjI) (rule a, rule e, rule ca, rule ce)
  note q = mp [OF t1 h]
  note g = mp [OF t2 f]
  show ?thesis
    by (intro conjI) (rule enriched_empty, rule a, rule e, rule ca, rule ce,
        (rule q [THEN conjunct1] | rule q [THEN conjunct2, THEN conjunct1]
          | rule q [THEN conjunct2, THEN conjunct2, THEN conjunct1]
          | rule q [THEN conjunct2, THEN conjunct2, THEN conjunct2, THEN conjunct1]
          | rule q [THEN conjunct2, THEN conjunct2, THEN conjunct2, THEN conjunct2, THEN conjunct1]
          | rule q [THEN conjunct2, THEN conjunct2, THEN conjunct2, THEN conjunct2, THEN conjunct2, THEN conjunct1]
          | rule q [THEN conjunct2, THEN conjunct2, THEN conjunct2, THEN conjunct2, THEN conjunct2, THEN conjunct2,
              THEN conjunct1]
          | rule q [THEN conjunct2, THEN conjunct2, THEN conjunct2, THEN conjunct2, THEN conjunct2, THEN conjunct2,
              THEN conjunct2, THEN conjunct1]
          | rule q [THEN conjunct2, THEN conjunct2, THEN conjunct2, THEN conjunct2, THEN conjunct2, THEN conjunct2,
              THEN conjunct2, THEN conjunct2, THEN conjunct1]
          | rule q [THEN conjunct2, THEN conjunct2, THEN conjunct2, THEN conjunct2, THEN conjunct2, THEN conjunct2,
              THEN conjunct2, THEN conjunct2, THEN conjunct2, THEN conjunct1]
          | rule q [THEN conjunct2, THEN conjunct2, THEN conjunct2, THEN conjunct2, THEN conjunct2, THEN conjunct2,
              THEN conjunct2, THEN conjunct2, THEN conjunct2, THEN conjunct2, THEN conjunct1]
          | rule q [THEN conjunct2, THEN conjunct2, THEN conjunct2, THEN conjunct2, THEN conjunct2, THEN conjunct2,
              THEN conjunct2, THEN conjunct2, THEN conjunct2, THEN conjunct2, THEN conjunct2, THEN conjunct1]
          | rule q [THEN conjunct2, THEN conjunct2, THEN conjunct2, THEN conjunct2, THEN conjunct2, THEN conjunct2,
              THEN conjunct2, THEN conjunct2, THEN conjunct2, THEN conjunct2, THEN conjunct2, THEN conjunct2,
              THEN conjunct1]
          | rule q [THEN conjunct2, THEN conjunct2, THEN conjunct2, THEN conjunct2, THEN conjunct2, THEN conjunct2,
              THEN conjunct2, THEN conjunct2, THEN conjunct2, THEN conjunct2, THEN conjunct2, THEN conjunct2,
              THEN conjunct2])+,
        rule f, rule g, rule t4)
qed

end
